theory Spec2Isabelle
  imports Complex_Main "HOL-Library.AList"
begin

section \<open>Python values\<close>

text \<open>
  A cell of the data frame, a JSON value of a collaborator's payload, or a local of the
  cleaner is a Python value: \<open>None\<close>, a string, an integer or a float. A float is a
  rational or NaN: the arithmetic of the model is exact, so the rounding of binary64
  and the infinities are not part of it. Strings are byte strings; the two Chinese
  characters of the localized spelling of "free" are their six UTF-8 bytes.
\<close>

datatype pyfloat = Fin rat | NaN

datatype pyval = PNone | PStr string | PInt int | PFloat pyfloat

datatype exn = TypeError | ValueError | KeyError | ZeroDivisionError | ModelError

section \<open>The fields of a record\<close>

text \<open>
  \<open>critical_fields\<close> pairs each checked column of the data frame with its field type.
  The columns have Chinese names in the source; here each is named after its field type.
  A row of the data frame is its cells in these columns (no other column is read or
  written, but \<open>AppID\<close>, which is carried beside the row).
\<close>

datatype ftype = release_date | price | playtime_avg | playtime_median
  | current_players | peak_24h | peak_alltime

datatype column = C_release_date | C_price | C_playtime_avg | C_playtime_median
  | C_current_players | C_peak_24h | C_peak_alltime

type_synonym row = "column \<Rightarrow> pyval"

type_synonym pydict = "(column \<times> pyval) list"

text \<open>\<open>self.critical_fields[f]\<close>, and the dictionary itself in its order.\<close>

fun critical_type :: "column \<Rightarrow> ftype" where
  "critical_type C_release_date = release_date"
| "critical_type C_price = price"
| "critical_type C_playtime_avg = playtime_avg"
| "critical_type C_playtime_median = playtime_median"
| "critical_type C_current_players = current_players"
| "critical_type C_peak_24h = peak_24h"
| "critical_type C_peak_alltime = peak_alltime"

definition critical_fields :: "(column \<times> ftype) list" where
  "critical_fields = map (\<lambda>c. (c, critical_type c))
     [C_release_date, C_price, C_playtime_avg, C_playtime_median,
      C_current_players, C_peak_24h, C_peak_alltime]"

definition numeric_fields :: "ftype list" where
  "numeric_fields = [current_players, peak_24h, peak_alltime, playtime_avg, playtime_median]"

section \<open>The runtime\<close>

text \<open>
  Four operations of the Python runtime and of pandas are not code of the repository and
  are parameters of the model: \<open>float(s)\<close> on a string (\<open>None\<close> when it raises
  ValueError), \<open>str(v)\<close> on a number, the element-wise conversion of
  \<open>pd.to_numeric(..., errors='coerce')\<close> on a string (NaN when it does not parse), and
  the write of a cell of the data frame, \<open>df.at[idx, column] = value\<close>: pandas raises
  when it refuses the value for the dtype of the column, and \<open>at_set\<close> is the exception
  it raises then (\<open>None\<close> when the value is written).
\<close>

record builtins =
  float_str :: "string \<Rightarrow> pyfloat option"
  str_num :: "pyval \<Rightarrow> string"
  to_numeric_str :: "string \<Rightarrow> pyfloat"
  at_set :: "column \<Rightarrow> pyval \<Rightarrow> exn option"

definition isna :: "pyval \<Rightarrow> bool" where
  "isna v = (case v of PNone \<Rightarrow> True | PFloat NaN \<Rightarrow> True | _ \<Rightarrow> False)"

definition truthy :: "pyval \<Rightarrow> bool" where
  "truthy v = (case v of
       PNone \<Rightarrow> False
     | PStr s \<Rightarrow> s \<noteq> []
     | PInt i \<Rightarrow> i \<noteq> 0
     | PFloat NaN \<Rightarrow> True
     | PFloat (Fin r) \<Rightarrow> r \<noteq> 0)"

definition py_float :: "builtins \<Rightarrow> pyval \<Rightarrow> exn + pyfloat" where
  "py_float B v = (case v of
       PNone \<Rightarrow> Inl TypeError
     | PStr s \<Rightarrow> (case float_str B s of None \<Rightarrow> Inl ValueError | Some f \<Rightarrow> Inr f)
     | PInt i \<Rightarrow> Inr (Fin (of_int i))
     | PFloat f \<Rightarrow> Inr f)"

definition py_str :: "builtins \<Rightarrow> pyval \<Rightarrow> string" where
  "py_str B v = (case v of
       PNone \<Rightarrow> ''None''
     | PStr s \<Rightarrow> s
     | PFloat NaN \<Rightarrow> ''nan''
     | _ \<Rightarrow> str_num B v)"

text \<open>\<open>x or 0\<close>\<close>

definition or_zero :: "pyval \<Rightarrow> pyval" where
  "or_zero v = (if truthy v then v else PInt 0)"

text \<open>\<open>x > 0\<close> on floats: false on NaN.\<close>

definition fpos :: "pyfloat \<Rightarrow> bool" where
  "fpos x = (case x of Fin r \<Rightarrow> 0 < r | NaN \<Rightarrow> False)"

text \<open>Division and multiplication of floats; every divisor in the code is non-zero.\<close>

definition fdiv :: "pyfloat \<Rightarrow> pyfloat \<Rightarrow> pyfloat" where
  "fdiv x y = (case (x, y) of (Fin a, Fin b) \<Rightarrow> Fin (a / b) | _ \<Rightarrow> NaN)"

definition fmul :: "pyfloat \<Rightarrow> pyfloat \<Rightarrow> pyfloat" where
  "fmul x y = (case (x, y) of (Fin a, Fin b) \<Rightarrow> Fin (a * b) | _ \<Rightarrow> NaN)"

text \<open>\<open>int(x)\<close> on a float truncates toward zero and raises ValueError on NaN.\<close>

definition trunc :: "rat \<Rightarrow> int" where
  "trunc r = (if 0 \<le> r then \<lfloor>r\<rfloor> else \<lceil>r\<rceil>)"

definition py_int :: "pyfloat \<Rightarrow> exn + int" where
  "py_int x = (case x of Fin r \<Rightarrow> Inr (trunc r) | NaN \<Rightarrow> Inl ValueError)"

subsection \<open>Strings\<close>

definition is_space :: "char \<Rightarrow> bool" where
  "is_space c = (let n = (of_char c :: nat) in (9 \<le> n \<and> n \<le> 13) \<or> (28 \<le> n \<and> n \<le> 32))"

definition strip :: "string \<Rightarrow> string" where
  "strip s = rev (dropWhile is_space (rev (dropWhile is_space s)))"

text \<open>\<open>lower()\<close> on the ASCII letters; every other byte is unchanged.\<close>

definition lower_char :: "char \<Rightarrow> char" where
  "lower_char c =
     (case map_of (zip ''ABCDEFGHIJKLMNOPQRSTUVWXYZ'' ''abcdefghijklmnopqrstuvwxyz'') c of
        None \<Rightarrow> c
      | Some d \<Rightarrow> d)"

definition lower :: "string \<Rightarrow> string" where
  "lower s = map lower_char s"

definition is_digit :: "char \<Rightarrow> bool" where
  "is_digit c = (let n = (of_char c :: nat) in 48 \<le> n \<and> n \<le> 57)"

definition digit_val :: "char \<Rightarrow> nat" where
  "digit_val c = (of_char c :: nat) - 48"

text \<open>The spelling of "free" in Chinese, as UTF-8.\<close>

definition mianfei :: string where
  "mianfei = [CHR 0xE5, CHR 0x85, CHR 0x8D, CHR 0xE8, CHR 0xB4, CHR 0xB9]"

section \<open>The classifier\<close>

text \<open>
  The string checks of \<open>is_field_missing\<close>, on the stripped string: \<open>Some b\<close> when one of
  them returns \<open>b\<close>, \<open>None\<close> when the code falls through to the numeric check.
\<close>

definition str_checks :: "string \<Rightarrow> ftype \<Rightarrow> bool option" where
  "str_checks s field_type =
     (if s = '''' \<or> lower s = ''n/a'' \<or> lower s = ''nan'' then Some True
      else if field_type = release_date \<and> s \<in> set [''N/A'', ''Coming Soon'', ''TBA''] then Some True
      else if field_type = price \<and> s \<in> set [''N/A'', ''Free'', ''''] then Some False
      else None)"

text \<open>\<open>value = value.strip()\<close> when the value is a string.\<close>

definition stripped :: "pyval \<Rightarrow> pyval" where
  "stripped v = (case v of PStr s \<Rightarrow> PStr (strip s) | _ \<Rightarrow> v)"

text \<open>\<open>SteamDataCleaner.is_field_missing\<close>\<close>

definition is_field_missing :: "builtins \<Rightarrow> pyval \<Rightarrow> ftype \<Rightarrow> bool" where
  "is_field_missing B v field_type =
     (if isna v then True
      else
        let v' = stripped v in
        case (case v' of PStr s \<Rightarrow> str_checks s field_type | _ \<Rightarrow> None) of
          Some b \<Rightarrow> b
        | None \<Rightarrow>
            if field_type \<in> set numeric_fields
            then (case py_float B v' of
                    Inr num_value \<Rightarrow> num_value = Fin 0 \<or> num_value = NaN
                  | Inl e \<Rightarrow> True)
            else False)"

section \<open>Feature extraction\<close>

text \<open>\<open>re.search(r'(\d{4})', s)\<close>: the first four consecutive digits.\<close>

fun find_year :: "string \<Rightarrow> string option" where
  "find_year (a # b # c # d # rest) =
     (if is_digit a \<and> is_digit b \<and> is_digit c \<and> is_digit d then Some [a, b, c, d]
      else find_year (b # c # d # rest))"
| "find_year _ = None"

definition dec_nat :: "string \<Rightarrow> nat" where
  "dec_nat s = foldl (\<lambda>n c. 10 * n + digit_val c) 0 s"

text \<open>
  \<open>re.findall(r'\d+\.?\d*', s)[0]\<close>: the first run of digits, with the digits after a
  point that follows it; \<open>None\<close> when the list is empty. The match is returned as its
  integer digits and its fraction digits, and \<open>dec_rat\<close> is \<open>float\<close> of the match.
\<close>

definition first_number :: "string \<Rightarrow> (string \<times> string) option" where
  "first_number s =
     (let t = dropWhile (\<lambda>c. \<not> is_digit c) s in
      if t = [] then None
      else let ip = takeWhile is_digit t; r = dropWhile is_digit t in
        Some (ip, case r of [] \<Rightarrow> [] | c # r' \<Rightarrow> if c = CHR ''.'' then takeWhile is_digit r' else []))"

definition dec_rat :: "string \<Rightarrow> string \<Rightarrow> rat" where
  "dec_rat ip fp = of_nat (dec_nat ip) + of_nat (dec_nat fp) / 10 ^ length fp"

text \<open>\<open>x in [...]\<close> for a list of strings: a value that is not a string equals none.\<close>

definition in_strs :: "pyval \<Rightarrow> string list \<Rightarrow> bool" where
  "in_strs v l = (case v of PStr s \<Rightarrow> s \<in> set l | _ \<Rightarrow> False)"

text \<open>
  The body of the \<open>try\<close> that computes the age: the year found in \<open>str(date)\<close> against
  the year of the clock, \<open>datetime.now().year\<close>, a parameter of the model;
  \<open>dflt\<close> is the value the variable keeps when no year is found.
\<close>

definition year_age :: "builtins \<Rightarrow> int \<Rightarrow> pyval \<Rightarrow> int \<Rightarrow> int" where
  "year_age B current_year date_str dflt =
     (case find_year (py_str B date_str) of
        Some release_year \<Rightarrow> max 0 (current_year - int (dec_nat release_year))
      | None \<Rightarrow> dflt)"

record features =
  f_game_age_years :: int
  f_is_free :: int
  f_price_numeric :: rat
  f_playtime_avg :: pyfloat
  f_playtime_median :: pyfloat
  f_playtime_price_ratio :: pyfloat
  f_current_players :: pyfloat
  f_peak_24h :: pyfloat
  f_peak_alltime :: pyfloat
  f_activity_ratio :: pyfloat
  f_historical_growth :: pyfloat

definition bind_exn :: "exn + 'a \<Rightarrow> ('a \<Rightarrow> exn + 'b) \<Rightarrow> exn + 'b" where
  "bind_exn m f = (case m of Inl e \<Rightarrow> Inl e | Inr x \<Rightarrow> f x)"

text \<open>\<open>SteamDataCleaner._extract_features_for_prediction\<close> (inference).\<close>

definition extract_features_for_prediction :: "builtins \<Rightarrow> int \<Rightarrow> row \<Rightarrow> exn + features" where
  "extract_features_for_prediction B current_year df_row =
     (let release_date_str = df_row C_release_date;
          game_age_years =
            (if truthy release_date_str
                \<and> \<not> in_strs release_date_str [''N/A'', ''Coming Soon'', ''TBA'', '''']
             then year_age B current_year release_date_str (- 1) else - 1);
          price_str = df_row C_price;
          is_free = (if lower (py_str B price_str) \<in> set [''free'', mianfei] then 1 else 0);
          price_numeric =
            (if truthy price_str
                \<and> lower (py_str B price_str) \<notin> set [''free'', mianfei, ''n/a'', '''']
             then (case first_number (py_str B price_str) of
                     Some (ip, fp) \<Rightarrow> dec_rat ip fp
                   | None \<Rightarrow> 0)
             else 0)
      in
      bind_exn (py_float B (or_zero (df_row C_playtime_avg))) (\<lambda>playtime_avg'.
      bind_exn (py_float B (or_zero (df_row C_playtime_median))) (\<lambda>playtime_median'.
      let playtime_price_ratio =
            (if 0 < price_numeric then fdiv playtime_avg' (Fin price_numeric) else playtime_avg')
      in
      bind_exn (py_float B (or_zero (df_row C_current_players))) (\<lambda>current_players'.
      bind_exn (py_float B (or_zero (df_row C_peak_24h))) (\<lambda>peak_24h'.
      bind_exn (py_float B (or_zero (df_row C_peak_alltime))) (\<lambda>peak_alltime'.
      Inr \<lparr> f_game_age_years = game_age_years,
            f_is_free = is_free,
            f_price_numeric = price_numeric,
            f_playtime_avg = playtime_avg',
            f_playtime_median = playtime_median',
            f_playtime_price_ratio = playtime_price_ratio,
            f_current_players = current_players',
            f_peak_24h = peak_24h',
            f_peak_alltime = peak_alltime',
            f_activity_ratio =
              (if fpos peak_24h' then fdiv current_players' peak_24h' else Fin 0),
            f_historical_growth =
              (if fpos peak_24h' then fdiv peak_alltime' peak_24h' else Fin 0) \<rparr>))))))"

text \<open>
  \<open>PlayerCountPredictor.extract_features\<close> (training), on one row of the data frame.
  \<open>pd.to_numeric(..., errors='coerce').fillna(0)\<close> on a cell:
\<close>

definition to_numeric_fillna :: "builtins \<Rightarrow> pyval \<Rightarrow> pyfloat" where
  "to_numeric_fillna B v =
     (let x = (case v of
                 PNone \<Rightarrow> NaN
               | PStr s \<Rightarrow> to_numeric_str B s
               | PInt i \<Rightarrow> Fin (of_int i)
               | PFloat f \<Rightarrow> f)
      in if x = NaN then Fin 0 else x)"

definition calculate_game_age :: "builtins \<Rightarrow> int \<Rightarrow> pyval \<Rightarrow> int" where
  "calculate_game_age B current_year date_str =
     (if isna date_str \<or> in_strs date_str [''N/A'', ''Coming Soon'', ''TBA'', ''''] then - 1
      else year_age B current_year date_str (- 1))"

definition extract_price :: "builtins \<Rightarrow> pyval \<Rightarrow> rat" where
  "extract_price B price_str =
     (if isna price_str \<or> lower (py_str B price_str) \<in> set [''free'', mianfei, ''n/a'', ''''] then 0
      else (case first_number (py_str B price_str) of
              Some (ip, fp) \<Rightarrow> dec_rat ip fp
            | None \<Rightarrow> 0))"

definition extract_features :: "builtins \<Rightarrow> int \<Rightarrow> row \<Rightarrow> features" where
  "extract_features B current_year df_row =
     (let price_numeric = extract_price B (df_row C_price);
          playtime_avg' = to_numeric_fillna B (df_row C_playtime_avg);
          current_players' = to_numeric_fillna B (df_row C_current_players);
          peak_24h' = to_numeric_fillna B (df_row C_peak_24h);
          peak_alltime' = to_numeric_fillna B (df_row C_peak_alltime)
      in
      \<lparr> f_game_age_years = calculate_game_age B current_year (df_row C_release_date),
        f_is_free =
          (if \<not> isna (df_row C_price) \<and> lower (py_str B (df_row C_price)) \<in> set [''free'', mianfei]
           then 1 else 0),
        f_price_numeric = price_numeric,
        f_playtime_avg = playtime_avg',
        f_playtime_median = to_numeric_fillna B (df_row C_playtime_median),
        f_playtime_price_ratio =
          (if 0 < price_numeric then fdiv playtime_avg' (Fin (max price_numeric 1))
           else playtime_avg'),
        f_current_players = current_players',
        f_peak_24h = peak_24h',
        f_peak_alltime = peak_alltime',
        f_activity_ratio =
          (if fpos peak_24h' then fdiv current_players' peak_24h' else Fin 0),
        f_historical_growth =
          (if fpos peak_24h' then fdiv peak_alltime' peak_24h' else Fin 0) \<rparr>)"

section \<open>Estimation of the player-count cluster\<close>

subsection \<open>The heuristic estimator\<close>

definition age_factors :: "int \<Rightarrow> rat \<times> rat" where
  "age_factors game_age_years =
     (if game_age_years \<le> 2 then (8 / 10, 13 / 10)
      else if game_age_years \<le> 5 then (5 / 10, 2)
      else (2 / 10, 35 / 10))"

text \<open>The age of the game as \<open>_simple_estimate\<close> computes it: 0 when it is not known.\<close>

definition estimate_age :: "builtins \<Rightarrow> int \<Rightarrow> pyval \<Rightarrow> int" where
  "estimate_age B current_year release_date_str =
     (if truthy release_date_str
         \<and> \<not> in_strs release_date_str [''N/A'', ''Coming Soon'', ''TBA'']
      then year_age B current_year release_date_str 0 else 0)"

text \<open>
  \<open>SteamDataCleaner._simple_estimate\<close>. The result is the dictionary of estimates, in
  insertion order; an unparsable cell of the cluster raises from \<open>float(...)\<close>.
\<close>

definition simple_estimate :: "builtins \<Rightarrow> int \<Rightarrow> row \<Rightarrow> ftype list \<Rightarrow> exn + pydict" where
  "simple_estimate B current_year df_row missing_fields =
     (let game_age_years = estimate_age B current_year (df_row C_release_date);
          decay_factor = Fin (fst (age_factors game_age_years));
          alltime_factor = Fin (snd (age_factors game_age_years))
      in
      bind_exn (py_float B (or_zero (df_row C_current_players))) (\<lambda>current_players'.
      bind_exn (py_float B (or_zero (df_row C_peak_24h))) (\<lambda>peak_24h'.
      bind_exn (py_float B (or_zero (df_row C_peak_alltime))) (\<lambda>peak_alltime'.
      bind_exn
        (if peak_24h \<in> set missing_fields then
           (if fpos current_players' then
              bind_exn (py_int (fdiv current_players' decay_factor)) (\<lambda>v.
                Inr (AList.update C_peak_24h (PInt v) [], Fin (of_int v)))
            else if fpos peak_alltime' then
              bind_exn (py_int (fdiv peak_alltime' alltime_factor)) (\<lambda>v.
                Inr (AList.update C_peak_24h (PInt v) [], Fin (of_int v)))
            else Inr ([], peak_24h'))
         else Inr ([], peak_24h'))
        (\<lambda>(est1, peak_24h'').
      bind_exn
        (if current_players \<in> set missing_fields \<and> fpos peak_24h'' then
           bind_exn (py_int (fmul peak_24h'' decay_factor)) (\<lambda>v.
             Inr (AList.update C_current_players (PInt v) est1))
         else Inr est1)
        (\<lambda>est2.
        if peak_alltime \<in> set missing_fields \<and> fpos peak_24h'' then
          bind_exn (py_int (fmul peak_24h'' alltime_factor)) (\<lambda>v.
            Inr (AList.update C_peak_alltime (PInt v) est2))
        else Inr est2))))))"

subsection \<open>The model bank\<close>

text \<open>
  An entry of \<open>self.ml_models\<close>: the unpickled regressor, as what \<open>model.predict(X)[0]\<close>
  returns on a feature row or raises, and the ordered names of its features. The bank is
  the dictionary in insertion order, read with \<open>map_of\<close>.
\<close>

record model_info =
  model :: "pyfloat list \<Rightarrow> exn + pyfloat"
  feature_cols :: "string list"

type_synonym model_bank = "(ftype \<times> model_info) list"

text \<open>\<open>features_dict.get(col, 0)\<close>\<close>

definition features_get :: "features \<Rightarrow> string \<Rightarrow> pyfloat" where
  "features_get fd col =
     (if col = ''game_age_years'' then Fin (of_int (f_game_age_years fd))
      else if col = ''is_free'' then Fin (of_int (f_is_free fd))
      else if col = ''price_numeric'' then Fin (f_price_numeric fd)
      else if col = ''playtime_avg'' then f_playtime_avg fd
      else if col = ''playtime_median'' then f_playtime_median fd
      else if col = ''playtime_price_ratio'' then f_playtime_price_ratio fd
      else if col = ''current_players'' then f_current_players fd
      else if col = ''peak_24h'' then f_peak_24h fd
      else if col = ''peak_alltime'' then f_peak_alltime fd
      else if col = ''activity_ratio'' then f_activity_ratio fd
      else if col = ''historical_growth'' then f_historical_growth fd
      else Fin 0)"

text \<open>The prediction of one target, clamped: \<open>max(0, int(model.predict(X)[0]))\<close>.\<close>

definition predict_clamped :: "model_info \<Rightarrow> features \<Rightarrow> exn + int" where
  "predict_clamped mi features_dict =
     (let X = map (features_get features_dict) (feature_cols mi) in
      bind_exn (model mi X) (\<lambda>prediction.
      bind_exn (py_int prediction) (\<lambda>i. Inr (max 0 i))))"

text \<open>
  One \<open>try\<close> block of \<open>estimate_player_fields\<close>, as written for the targets
  \<open>peak_24h\<close> and \<open>current_players\<close>: it runs when the target is listed as missing and has
  a model; on a positive prediction it stores the estimate and the feature, and an
  exception leaves both as they were.
\<close>

definition predict_step ::
  "model_bank \<Rightarrow> ftype list \<Rightarrow> ftype \<Rightarrow> column \<Rightarrow> (features \<Rightarrow> pyfloat \<Rightarrow> features)
     \<Rightarrow> pydict \<times> features \<Rightarrow> pydict \<times> features" where
  "predict_step ml_models missing_fields target col store = (\<lambda>(est, fd).
     if target \<in> set missing_fields then
       (case map_of ml_models target of
          None \<Rightarrow> (est, fd)
        | Some mi \<Rightarrow>
            (case predict_clamped mi fd of
               Inl e \<Rightarrow> (est, fd)
             | Inr prediction \<Rightarrow>
                 if 0 < prediction
                 then (AList.update col (PInt prediction) est, store fd (Fin (of_int prediction)))
                 else (est, fd)))
     else (est, fd))"

text \<open>\<open>SteamDataCleaner.estimate_player_fields\<close>\<close>

definition estimate_player_fields ::
  "builtins \<Rightarrow> model_bank \<Rightarrow> int \<Rightarrow> row \<Rightarrow> ftype list \<Rightarrow> exn + pydict" where
  "estimate_player_fields B ml_models current_year df_row missing_fields =
     (if ml_models = [] then simple_estimate B current_year df_row missing_fields
      else
        bind_exn (extract_features_for_prediction B current_year df_row) (\<lambda>fd0.
        let (est1, fd1) =
              predict_step ml_models missing_fields peak_24h C_peak_24h
                (\<lambda>fd p. fd\<lparr>f_peak_24h := p\<rparr>) ([], fd0);
            (est2, fd2) =
              predict_step ml_models missing_fields current_players C_current_players
                (\<lambda>fd p. fd\<lparr>f_current_players := p\<rparr>) (est1, fd1);
            est3 =
              (if peak_alltime \<in> set missing_fields then
                 (case map_of ml_models peak_alltime of
                    None \<Rightarrow> est2
                  | Some mi \<Rightarrow>
                      let fd3 = (if fpos (f_peak_24h fd2)
                                 then fd2\<lparr>f_activity_ratio :=
                                        fdiv (f_current_players fd2) (f_peak_24h fd2)\<rparr>
                                 else fd2)
                      in (case predict_clamped mi fd3 of
                            Inl e \<Rightarrow> est2
                          | Inr prediction \<Rightarrow>
                              if 0 < prediction
                              then AList.update C_peak_alltime (PInt prediction) est2
                              else est2))
               else est2)
        in Inr est3))"

section \<open>External completion\<close>

text \<open>
  The payloads of the three collaborators, as \<open>fetch_missing_data\<close> reads them. A key
  that is absent is \<open>None\<close>. \<open>price_overview\<close> is \<open>None\<close> when it is absent or empty, and
  else holds its \<open>final_formatted\<close>.
\<close>

record game_details =
  gd_date :: "pyval option"
  gd_price_overview :: "pyval option option"
  gd_is_free :: bool

record steamspy =
  average_forever :: "pyval option"
  median_forever :: "pyval option"
  ccu :: "pyval option"

text \<open>
  The lookups by \<open>AppID\<close>; each catches its own failures and returns \<open>None\<close> then
  (\<open>get_steamcharts_data\<close> a pair of \<open>None\<close>).
\<close>

record env =
  get_game_details :: "pyval \<Rightarrow> game_details option"
  get_steamspy_data :: "pyval \<Rightarrow> steamspy option"
  get_steamcharts_data :: "pyval \<Rightarrow> pyval \<times> pyval"

text \<open>\<open>x and x > 0\<close>, for \<open>x = d.get(key, 0)\<close>: comparing a string with 0 raises.\<close>

definition get0 :: "pyval option \<Rightarrow> pyval" where
  "get0 x = (case x of None \<Rightarrow> PInt 0 | Some v \<Rightarrow> v)"

definition pos_check :: "pyval \<Rightarrow> exn + bool" where
  "pos_check v =
     (if \<not> truthy v then Inr False
      else (case v of
              PInt i \<Rightarrow> Inr (0 < i)
            | PFloat f \<Rightarrow> Inr (fpos f)
            | _ \<Rightarrow> Inl TypeError))"

definition store_part :: "game_details option \<Rightarrow> ftype list \<Rightarrow> pydict \<Rightarrow> pydict" where
  "store_part details missing_fields d =
     (case details of
        None \<Rightarrow> d
      | Some g \<Rightarrow>
          let d1 = (if release_date \<in> set missing_fields then
                      (let date_str = (case gd_date g of None \<Rightarrow> PStr ''N/A'' | Some v \<Rightarrow> v) in
                       if truthy date_str \<and> date_str \<noteq> PStr ''N/A''
                       then AList.update C_release_date date_str d else d)
                    else d)
          in
          if price \<in> set missing_fields then
            (case gd_price_overview g of
               Some final_formatted \<Rightarrow>
                 AList.update C_price
                   (case final_formatted of None \<Rightarrow> PStr ''N/A'' | Some v \<Rightarrow> v) d1
             | None \<Rightarrow> if gd_is_free g then AList.update C_price (PStr ''Free'') d1 else d1)
          else d1)"

definition spy_field ::
  "ftype list \<Rightarrow> ftype \<Rightarrow> column \<Rightarrow> pyval option \<Rightarrow> pydict \<Rightarrow> exn + pydict" where
  "spy_field missing_fields ft col x d =
     (if ft \<in> set missing_fields then
        bind_exn (pos_check (get0 x)) (\<lambda>ok.
          Inr (if ok then AList.update col (get0 x) d else d))
      else Inr d)"

definition spy_part :: "steamspy option \<Rightarrow> ftype list \<Rightarrow> pydict \<Rightarrow> exn + pydict" where
  "spy_part spy missing_fields d =
     (case spy of
        None \<Rightarrow> Inr d
      | Some s \<Rightarrow>
          bind_exn (spy_field missing_fields playtime_avg C_playtime_avg (average_forever s) d) (\<lambda>d1.
          bind_exn (spy_field missing_fields playtime_median C_playtime_median (median_forever s) d1) (\<lambda>d2.
          bind_exn (spy_field missing_fields current_players C_current_players (ccu s) d2) (\<lambda>d3.
          spy_field missing_fields peak_24h C_peak_24h (ccu s) d3))))"

definition charts_part :: "pyval \<times> pyval \<Rightarrow> ftype list \<Rightarrow> pydict \<Rightarrow> pydict" where
  "charts_part charts missing_fields d =
     (let (peak_24h', peak_alltime') = charts;
          d1 = (if peak_24h \<in> set missing_fields \<and> truthy peak_24h' \<and> map_of d C_peak_24h = None
                then AList.update C_peak_24h peak_24h' d else d)
      in if peak_alltime \<in> set missing_fields \<and> truthy peak_alltime'
         then AList.update C_peak_alltime peak_alltime' d1 else d1)"

text \<open>
  \<open>SteamDataCleaner.fetch_missing_data\<close>, in its three stages; a source is queried only
  when one of its fields is missing. A key is in a dictionary \<open>d\<close> when \<open>map_of d\<close> is
  not \<open>None\<close> on it.
\<close>

definition after_store :: "env \<Rightarrow> pyval \<Rightarrow> ftype list \<Rightarrow> pydict" where
  "after_store E app_id missing_fields =
     (if \<exists>f \<in> set missing_fields. f \<in> set [release_date, price]
      then store_part (get_game_details E app_id) missing_fields [] else [])"

definition after_spy :: "env \<Rightarrow> pyval \<Rightarrow> ftype list \<Rightarrow> exn + pydict" where
  "after_spy E app_id missing_fields =
     (if \<exists>f \<in> set missing_fields. f \<in> set [playtime_avg, playtime_median, current_players, peak_24h]
      then spy_part (get_steamspy_data E app_id) missing_fields (after_store E app_id missing_fields)
      else Inr (after_store E app_id missing_fields))"

definition fetch_missing_data :: "env \<Rightarrow> pyval \<Rightarrow> ftype list \<Rightarrow> exn + pydict" where
  "fetch_missing_data E app_id missing_fields =
     bind_exn (after_spy E app_id missing_fields) (\<lambda>d.
       Inr (if peak_alltime \<in> set missing_fields \<or> peak_24h \<in> set missing_fields
            then charts_part (get_steamcharts_data E app_id) missing_fields d else d))"

section \<open>The completion orchestrator\<close>

text \<open>
  What \<open>clean_data\<close> prints while it processes one record, by the tag of the message.
\<close>

datatype event =
    E_missing "ftype list"
  | E_price_fetch_failed
  | E_filled nat
  | E_delete_all_players
  | E_estimate
  | E_estimated nat
  | E_price_only
  | E_unresolved "column list"
  | E_error exn

text \<open>
  The effect of one iteration of the loop on its state: the row of the data frame at the
  index, how many times the index was appended to the list of deletions, the increment of
  the counter of completed records, and the messages printed.
\<close>

record outcome =
  out_row :: row
  deletions :: nat
  completed :: nat
  printed :: "event list"

definition player_fields :: "ftype list" where
  "player_fields = [current_players, peak_24h, peak_alltime]"

definition missing_of :: "builtins \<Rightarrow> row \<Rightarrow> ftype list" where
  "missing_of B r =
     map snd (filter (\<lambda>(field_cn, ft). is_field_missing B (r field_cn) ft) critical_fields)"

text \<open>
  The write of one cell of the row, \<open>df.at[idx, field_cn] = value\<close>: it raises what the
  write of pandas raises, and the row is then as it was.
\<close>

definition at_write ::
  "builtins \<Rightarrow> outcome \<Rightarrow> column \<Rightarrow> pyval \<Rightarrow> (exn \<times> outcome) + outcome" where
  "at_write B s field_cn v =
     (case at_set B field_cn v of
        Some e \<Rightarrow> Inl (e, s)
      | None \<Rightarrow> Inr (s\<lparr>out_row := (out_row s)(field_cn := v)\<rparr>))"

text \<open>The loop that writes the values of the external completion to the row.\<close>

fun write_all :: "builtins \<Rightarrow> pydict \<Rightarrow> outcome \<Rightarrow> (exn \<times> outcome) + outcome" where
  "write_all B [] s = Inr s"
| "write_all B ((field_cn, v) # rest) s =
     (case at_write B s field_cn v of
        Inl x \<Rightarrow> Inl x
      | Inr s1 \<Rightarrow> write_all B rest s1)"

text \<open>
  The loop over the estimates: each is written to the row, and its column is removed from
  both lists when it is in the first (\<open>list.remove\<close> raises when the element is absent).
\<close>

fun apply_estimates ::
  "builtins \<Rightarrow> pydict \<Rightarrow> outcome \<times> column list \<times> column list
     \<Rightarrow> (exn \<times> outcome) + (outcome \<times> column list \<times> column list)" where
  "apply_estimates B [] st = Inr st"
| "apply_estimates B ((field_cn, v) # rest) (s, missing_player_fields, still_missing) =
     (case at_write B s field_cn v of
        Inl x \<Rightarrow> Inl x
      | Inr s1 \<Rightarrow>
          if field_cn \<in> set missing_player_fields then
            (if field_cn \<in> set still_missing
             then apply_estimates B rest
                    (s1, remove1 field_cn missing_player_fields, remove1 field_cn still_missing)
             else Inl (ValueError, s1))
          else apply_estimates B rest (s1, missing_player_fields, still_missing))"

text \<open>
  The special handling of the player-count cluster (from the list of the cluster's
  columns that are still missing to the update of \<open>still_missing\<close>).
\<close>

definition player_phase ::
  "builtins \<Rightarrow> model_bank \<Rightarrow> int \<Rightarrow> outcome \<Rightarrow> column list
     \<Rightarrow> (exn \<times> outcome) + (outcome \<times> column list)" where
  "player_phase B ml_models current_year s still_missing =
     (let missing_player_fields =
            filter (\<lambda>f. critical_type f \<in> set player_fields) still_missing
      in
      if missing_player_fields \<noteq> [] then
        (let player_field_types = map critical_type missing_player_fields in
         if set player_field_types = set player_fields then
           Inr (s\<lparr>deletions := deletions s + 1,
                   printed := printed s @ [E_delete_all_players]\<rparr>, still_missing)
         else
           (let s1 = s\<lparr>printed := printed s @ [E_estimate]\<rparr> in
            case estimate_player_fields B ml_models current_year (out_row s1) player_field_types of
              Inl e \<Rightarrow> Inl (e, s1)
            | Inr est \<Rightarrow>
                (case (if est \<noteq> []
                       then apply_estimates B est
                              (s1\<lparr>printed := printed s1 @ [E_estimated (length est)]\<rparr>,
                               missing_player_fields, still_missing)
                       else Inr (s1, missing_player_fields, still_missing)) of
                   Inl x \<Rightarrow> Inl x
                 | Inr (s2, missing_player_fields', still_missing') \<Rightarrow>
                     Inr (s2, filter (\<lambda>f. f \<notin> set missing_player_fields'
                                        \<or> is_field_missing B (out_row s2 f) (critical_type f))
                                still_missing'))))
      else Inr (s, still_missing))"

text \<open>
  The price-only rule and the decision, at the end of the \<open>try\<close> block. The write of
  \<open>Free\<close> is inside the block: when it raises, the block raises.
\<close>

definition final_phase ::
  "builtins \<Rightarrow> outcome \<Rightarrow> column list \<Rightarrow> (exn \<times> outcome) + outcome" where
  "final_phase B s still_missing =
     (case (if still_missing = [C_price]
            then (case at_write B (s\<lparr>printed := printed s @ [E_price_only]\<rparr>)
                         C_price (PStr ''Free'') of
                    Inl x \<Rightarrow> Inl x
                  | Inr s1 \<Rightarrow> Inr (s1, []))
            else Inr (s, still_missing)) of
        Inl x \<Rightarrow> Inl x
      | Inr (s1, still_missing') \<Rightarrow>
          Inr (if still_missing' \<noteq> []
               then s1\<lparr>deletions := deletions s1 + 1,
                       printed := printed s1 @ [E_unresolved still_missing']\<rparr>
               else s1\<lparr>completed := completed s1 + 1\<rparr>))"

text \<open>
  The \<open>try\<close> block of the loop body, after the external completion returned \<open>d\<close> and
  the rule for a record that misses only its price did not apply: the update of the row,
  the second classification and the cluster. It gives the state and the columns still
  missing, or raises, with the state at the raise.
\<close>

definition attempts ::
  "builtins \<Rightarrow> model_bank \<Rightarrow> int \<Rightarrow> ftype list \<Rightarrow> pydict \<Rightarrow> outcome
     \<Rightarrow> (exn \<times> outcome) + (outcome \<times> column list)" where
  "attempts B ml_models current_year missing_fields d s =
     (case (if d \<noteq> []
            then write_all B d (s\<lparr>printed := printed s @ [E_filled (length d)]\<rparr>)
            else Inr s) of
        Inl x \<Rightarrow> Inl x
      | Inr s1 \<Rightarrow>
          let still_missing =
                map fst (filter (\<lambda>(field_cn, ft). ft \<in> set missing_fields
                                    \<and> is_field_missing B (out_row s1 field_cn) ft)
                           critical_fields)
          in player_phase B ml_models current_year s1 still_missing)"

text \<open>
  The whole \<open>try\<close> block. It ends normally (also through \<open>continue\<close>) with the state it
  reached, or raises, with the state at the raise.
\<close>

definition price_only_unfetched :: "ftype list \<Rightarrow> pydict \<Rightarrow> bool" where
  "price_only_unfetched missing_fields d =
     ((missing_fields = [price] \<or> (length missing_fields = 1 \<and> hd missing_fields = price))
      \<and> (d = [] \<or> map_of d C_price = None))"

definition try_body ::
  "builtins \<Rightarrow> env \<Rightarrow> model_bank \<Rightarrow> int \<Rightarrow> pyval \<Rightarrow> ftype list \<Rightarrow> outcome
     \<Rightarrow> (exn \<times> outcome) + outcome" where
  "try_body B E ml_models current_year app_id missing_fields s =
     (case fetch_missing_data E app_id missing_fields of
        Inl e \<Rightarrow> Inl (e, s)
      | Inr d \<Rightarrow>
          if price_only_unfetched missing_fields d
          then (case at_write B (s\<lparr>printed := printed s @ [E_price_fetch_failed]\<rparr>)
                       C_price (PStr ''Free'') of
                  Inl x \<Rightarrow> Inl x
                | Inr s1 \<Rightarrow> Inr (s1\<lparr>completed := completed s1 + 1\<rparr>))
          else
            (case attempts B ml_models current_year missing_fields d s of
               Inl x \<Rightarrow> Inl x
             | Inr (s2, still_missing) \<Rightarrow> final_phase B s2 still_missing))"

text \<open>
  The state of an iteration when it enters the \<open>try\<close> block: the row as read, and the
  message that lists the missing fields.
\<close>

definition start_state :: "row \<Rightarrow> ftype list \<Rightarrow> outcome" where
  "start_state r missing_fields =
     \<lparr>out_row = r, deletions = 0, completed = 0, printed = [E_missing missing_fields]\<rparr>"

text \<open>One iteration of the loop of \<open>clean_data\<close>, with its \<open>except\<close> handler.\<close>

definition process_record ::
  "builtins \<Rightarrow> env \<Rightarrow> model_bank \<Rightarrow> int \<Rightarrow> pyval \<Rightarrow> row \<Rightarrow> outcome" where
  "process_record B E ml_models current_year app_id r =
     (let missing_fields = missing_of B r in
      if missing_fields \<noteq> [] then
        (case try_body B E ml_models current_year app_id missing_fields
                (start_state r missing_fields) of
           Inr s' \<Rightarrow> s'
         | Inl (e, s') \<Rightarrow>
             s'\<lparr>deletions := deletions s' + 1, printed := printed s' @ [E_error e]\<rparr>)
      else \<lparr>out_row = r, deletions = 0, completed = 0, printed = []\<rparr>)"

text \<open>
  The state of the loop over the data frame: the frame (each row with its \<open>AppID\<close>), the
  list of indices to delete, the counter of completed records and the output.
\<close>

record cleaner =
  df :: "(pyval \<times> row) list"
  deleted_idx :: "nat list"
  completed_count :: nat
  stdout :: "event list"

fun clean_loop ::
  "builtins \<Rightarrow> env \<Rightarrow> model_bank \<Rightarrow> int \<Rightarrow> (nat \<times> pyval \<times> row) list \<Rightarrow> cleaner \<Rightarrow> cleaner" where
  "clean_loop B E ml_models current_year [] st = st"
| "clean_loop B E ml_models current_year ((idx, app_id, r) # rest) st =
     clean_loop B E ml_models current_year rest
       (let s = process_record B E ml_models current_year app_id r in
        st\<lparr>df := (df st)[idx := (app_id, out_row s)],
           deleted_idx := deleted_idx st @ replicate (deletions s) idx,
           completed_count := completed_count st + completed s,
           stdout := stdout st @ printed s\<rparr>)"

definition drop_rows :: "nat list \<Rightarrow> 'a list \<Rightarrow> 'a list" where
  "drop_rows idxs rows = map snd (filter (\<lambda>(i, x). i \<notin> set idxs) (zip [0..<length rows] rows))"

text \<open>The loop of \<open>clean_data\<close> over the data frame read, from its initial state.\<close>

definition clean_state :: "builtins \<Rightarrow> env \<Rightarrow> model_bank \<Rightarrow> int \<Rightarrow> (pyval \<times> row) list \<Rightarrow> cleaner" where
  "clean_state B E ml_models current_year rows =
     clean_loop B E ml_models current_year (zip [0..<length rows] rows)
       \<lparr>df = rows, deleted_idx = [], completed_count = 0, stdout = []\<rparr>"

text \<open>
  \<open>clean_data\<close>, from the data frame read (with its required columns) to the data frame
  saved: the loop, then the deletion of the rows marked. The statistics it prints before
  the loop are percentages of the number of records, so an empty frame raises there.
\<close>

definition clean_data ::
  "builtins \<Rightarrow> env \<Rightarrow> model_bank \<Rightarrow> int \<Rightarrow> (pyval \<times> row) list \<Rightarrow> exn + (pyval \<times> row) list" where
  "clean_data B E ml_models current_year rows =
     (if rows = [] then Inl ZeroDivisionError
      else
        let st = clean_state B E ml_models current_year rows in
        Inr (if deleted_idx st \<noteq> [] then drop_rows (deleted_idx st) (df st) else df st))"

text \<open>
  The terminal outcome of a record, in the vocabulary of the specification: dropped when
  its index is in the list of deletions; else salvaged when it is kept through one of the
  two rules that fill the price with \<open>Free\<close>, resolved when it is counted as completed
  otherwise, and intact when nothing was missing.
\<close>

datatype decision = Intact | Resolved | Salvaged | Dropped

definition decision_of :: "outcome \<Rightarrow> decision" where
  "decision_of s =
     (if 0 < deletions s then Dropped
      else if E_price_fetch_failed \<in> set (printed s) \<or> E_price_only \<in> set (printed s) then Salvaged
      else if 0 < completed s then Resolved
      else Intact)"

section \<open>The trainer\<close>

text \<open>
  \<open>df[target_field]\<close> on the data frame of features: the column of that name, when there
  is one (the names of the field types \<open>release_date\<close> and \<open>price\<close> are no columns of it).
\<close>

definition target_column :: "ftype \<Rightarrow> (features \<Rightarrow> pyfloat) option" where
  "target_column target_field =
     (case target_field of
        current_players \<Rightarrow> Some f_current_players
      | peak_24h \<Rightarrow> Some f_peak_24h
      | peak_alltime \<Rightarrow> Some f_peak_alltime
      | playtime_avg \<Rightarrow> Some f_playtime_avg
      | playtime_median \<Rightarrow> Some f_playtime_median
      | _ \<Rightarrow> None)"

definition target_feature_cols :: "ftype \<Rightarrow> string list option" where
  "target_feature_cols target_field =
     (case target_field of
        current_players \<Rightarrow>
          Some [''game_age_years'', ''is_free'', ''price_numeric'',
                ''playtime_avg'', ''playtime_median'', ''playtime_price_ratio'',
                ''peak_24h'', ''peak_alltime'', ''historical_growth'']
      | peak_24h \<Rightarrow>
          Some [''game_age_years'', ''is_free'', ''price_numeric'',
                ''playtime_avg'', ''playtime_median'', ''playtime_price_ratio'',
                ''current_players'', ''peak_alltime'']
      | peak_alltime \<Rightarrow>
          Some [''game_age_years'', ''is_free'', ''price_numeric'',
                ''playtime_avg'', ''playtime_median'', ''playtime_price_ratio'',
                ''current_players'', ''peak_24h'', ''activity_ratio'']
      | _ \<Rightarrow> None)"

text \<open>\<open>PlayerCountPredictor.prepare_training_data\<close>: the rows \<open>X\<close>, the targets \<open>y\<close>, the names.\<close>

definition prepare_training_data ::
  "features list \<Rightarrow> ftype \<Rightarrow> exn + (pyfloat list list \<times> pyfloat list \<times> string list)" where
  "prepare_training_data features_df target_field =
     (case target_column target_field of
        None \<Rightarrow> Inl KeyError
      | Some col \<Rightarrow>
          let df_valid = filter (\<lambda>f. fpos (col f)) features_df in
          (case target_feature_cols target_field of
             None \<Rightarrow> Inl ValueError
           | Some cols \<Rightarrow>
               Inr (map (\<lambda>f. map (features_get f) cols) df_valid, map col df_valid, cols)))"

text \<open>
  The loop of \<open>train_all_models\<close> over the targets. \<open>train_model\<close> is the fitting and
  selection among the regressors of scikit-learn, a parameter: it returns the best model
  or raises. The models are saved after the loop, so the result is the bank persisted,
  and nothing is persisted when the loop raises.
\<close>

fun train_loop ::
  "(pyfloat list list \<Rightarrow> pyfloat list \<Rightarrow> ftype \<Rightarrow> exn + (pyfloat list \<Rightarrow> exn + pyfloat))
     \<Rightarrow> features list \<Rightarrow> ftype list \<Rightarrow> model_bank \<Rightarrow> exn + model_bank" where
  "train_loop train_model features_df [] models = Inr models"
| "train_loop train_model features_df (target # targets) models =
     (case prepare_training_data features_df target of
        Inl e \<Rightarrow> Inl e
      | Inr (X, y, cols) \<Rightarrow>
          if length X < 10 then train_loop train_model features_df targets models
          else (case train_model X y target of
                  Inl e \<Rightarrow> Inl e
                | Inr m \<Rightarrow>
                    train_loop train_model features_df targets
                      (AList.update target \<lparr>model = m, feature_cols = cols\<rparr> models)))"

definition train_all_models ::
  "builtins \<Rightarrow> int
     \<Rightarrow> (pyfloat list list \<Rightarrow> pyfloat list \<Rightarrow> ftype \<Rightarrow> exn + (pyfloat list \<Rightarrow> exn + pyfloat))
     \<Rightarrow> row list \<Rightarrow> exn + model_bank" where
  "train_all_models B current_year train_model data =
     train_loop train_model (map (extract_features B current_year) data)
       [current_players, peak_24h, peak_alltime] []"

section \<open>The builtins of Python, and an instance for the examples\<close>

text \<open>
  The strings that \<open>is_field_missing\<close> takes for missing before it parses them: empty,
  \<open>n/a\<close> or \<open>nan\<close> in any case. Python's \<open>float\<close> raises on the first two and gives NaN
  on the third, so it parses none of them to a positive number; \<open>float_ok\<close> says so of the
  parameter.
\<close>

definition blank :: "string \<Rightarrow> bool" where
  "blank s = (s = '''' \<or> lower s = ''n/a'' \<or> lower s = ''nan'')"

definition float_ok :: "builtins \<Rightarrow> bool" where
  "float_ok B = (\<forall>s x. blank s \<longrightarrow> float_str B s = Some (Fin x) \<longrightarrow> x \<le> 0)"

text \<open>
  An instance on what the examples use: \<open>float\<close> and \<open>to_numeric\<close> on strings of decimal
  digits, \<open>str\<close> on integers and on floats that are whole numbers.
\<close>

fun nat_str :: "nat \<Rightarrow> string" where
  "nat_str n =
     (if n < 10 then [''0123456789'' ! n]
      else nat_str (n div 10) @ [''0123456789'' ! (n mod 10)])"

definition int_str :: "int \<Rightarrow> string" where
  "int_str i = (if i < 0 then CHR ''-'' # nat_str (nat (- i)) else nat_str (nat i))"

definition dec_float :: "string \<Rightarrow> pyfloat option" where
  "dec_float s =
     (if s \<noteq> [] \<and> list_all is_digit s then Some (Fin (of_nat (dec_nat s))) else None)"

definition demo_builtins :: builtins where
  "demo_builtins =
     \<lparr> float_str = dec_float,
       str_num = (\<lambda>v. case v of
                    PInt i \<Rightarrow> int_str i
                  | PFloat (Fin r) \<Rightarrow> int_str (trunc r) @ ''.0''
                  | _ \<Rightarrow> ''''),
       to_numeric_str = (\<lambda>s. case dec_float s of Some f \<Rightarrow> f | None \<Rightarrow> NaN),
       at_set = (\<lambda>field_cn v. None) \<rparr>"

section \<open>Statements about the heuristic estimator\<close>

text \<open>The positive value of a float, when it has one (\<open>x > 0\<close> holds).\<close>

definition pos :: "pyfloat \<Rightarrow> rat option" where
  "pos x = (case x of Fin r \<Rightarrow> if 0 < r then Some r else None | NaN \<Rightarrow> None)"

text \<open>
  The estimate of \<open>peak_24h\<close> from the factors \<open>k\<close>, the current players and the all-time
  peak: the first of the two that is positive, divided by its factor and truncated.
\<close>

definition derived_peak_24h :: "rat \<times> rat \<Rightarrow> pyfloat \<Rightarrow> pyfloat \<Rightarrow> int option" where
  "derived_peak_24h k cp pa =
     (case pos cp of
        Some c \<Rightarrow> Some (trunc (c / fst k))
      | None \<Rightarrow> (case pos pa of Some a \<Rightarrow> Some (trunc (a / snd k)) | None \<Rightarrow> None))"

text \<open>
  The estimate of \<open>peak_24h\<close> in the words of the specification: the current players
  divided by the decay factor of the age.
\<close>

definition spec_peak_24h :: "rat \<Rightarrow> int \<Rightarrow> rat" where
  "spec_peak_24h cp age = cp / fst (age_factors age)"

subsection \<open>Rows for the examples\<close>

definition row_none :: row where
  "row_none = (\<lambda>c. PNone)"

definition row_cp3 :: row where
  "row_cp3 = row_none(C_current_players := PInt 3)"

text \<open>The record of the scenarios of the specification, with no player count.\<close>

definition row_2018 :: row where
  "row_2018 = (\<lambda>c. PInt 0)
     (C_release_date := PStr ''Nov 1, 2018'', C_price := PStr ''$29.99'',
      C_playtime_avg := PInt 600, C_playtime_median := PInt 400)"

definition row_cp50 :: row where
  "row_cp50 = row_2018(C_current_players := PInt 50)"

section \<open>Statements about feature extraction\<close>

text \<open>
  \<open>playtime_price_ratio\<close> in the words of the specification, from the two features it is
  derived from.
\<close>

definition spec_playtime_price_ratio :: "pyfloat \<Rightarrow> rat \<Rightarrow> pyfloat" where
  "spec_playtime_price_ratio avg price_numeric =
     (if 0 < price_numeric then fdiv avg (Fin price_numeric) else avg)"

text \<open>A feature vector without its age.\<close>

definition ageless :: "features \<Rightarrow> features" where
  "ageless f = f\<lparr>f_game_age_years := 0\<rparr>"

text \<open>A record priced under one unit, with 100 minutes of average play time.\<close>

definition row_cheap :: row where
  "row_cheap = row_2018(C_price := PStr ''$0.99'', C_playtime_avg := PInt 100)"

text \<open>The record of 2018 with fifty current players, and with another release date.\<close>

definition row_cp50_2001 :: row where
  "row_cp50_2001 = row_cp50(C_release_date := PStr ''Mar 3, 2001'')"

section \<open>Statements about external completion\<close>

text \<open>
  The columns each source is authoritative for, and the columns asked for by a list of
  missing field types.
\<close>

definition store_columns :: "column set" where
  "store_columns = {C_release_date, C_price}"

definition spy_columns :: "column set" where
  "spy_columns = {C_playtime_avg, C_playtime_median, C_current_players, C_peak_24h}"

definition charts_columns :: "column set" where
  "charts_columns = {C_peak_24h, C_peak_alltime}"

definition asked :: "ftype list \<Rightarrow> column set" where
  "asked missing_fields = {c. critical_type c \<in> set missing_fields}"

text \<open>
  Collaborators for the examples: no store details, aggregate statistics with 120
  concurrent players, and charts with the peaks 300 and 900.
\<close>

definition spy_demo :: steamspy where
  "spy_demo = \<lparr>average_forever = Some (PInt 600), median_forever = None, ccu = Some (PInt 120)\<rparr>"

definition env_demo :: env where
  "env_demo =
     \<lparr> get_game_details = (\<lambda>app_id. None),
       get_steamspy_data = (\<lambda>app_id. Some spy_demo),
       get_steamcharts_data = (\<lambda>app_id. (PInt 300, PInt 900)) \<rparr>"

section \<open>Statements about model-based estimation\<close>

text \<open>
  The prediction of a target on the features \<open>fd\<close>, clamped by \<open>max(0, int(...))\<close>, when
  the target has a model, the prediction raises no exception and the clamped prediction
  is strictly positive.
\<close>

definition clamped_positive :: "model_bank \<Rightarrow> ftype \<Rightarrow> features \<Rightarrow> int option" where
  "clamped_positive ml_models target fd =
     (case map_of ml_models target of
        None \<Rightarrow> None
      | Some mi \<Rightarrow>
          (case bind_exn (model mi (map (features_get fd) (feature_cols mi))) py_int of
             Inl e \<Rightarrow> None
           | Inr i \<Rightarrow> if 0 < max 0 i then Some (max 0 i) else None))"

text \<open>
  A bank for the examples: a model of \<open>peak_24h\<close> that predicts 5.01 times its first
  feature, a model of \<open>current_players\<close> that predicts -3, and a model of \<open>peak_alltime\<close>
  that raises.
\<close>

definition model_24h :: "pyfloat list \<Rightarrow> exn + pyfloat" where
  "model_24h X = (case X of [] \<Rightarrow> Inl ModelError | x # xs \<Rightarrow> Inr (fmul x (Fin (501 / 100))))"

definition model_negative :: "pyfloat list \<Rightarrow> exn + pyfloat" where
  "model_negative X = Inr (Fin (- 3))"

definition model_raising :: "pyfloat list \<Rightarrow> exn + pyfloat" where
  "model_raising X = Inl ModelError"

definition bank_demo :: model_bank where
  "bank_demo =
     [(peak_24h, \<lparr>model = model_24h, feature_cols = [''current_players'']\<rparr>),
      (current_players, \<lparr>model = model_negative, feature_cols = [''peak_24h'']\<rparr>),
      (peak_alltime, \<lparr>model = model_raising, feature_cols = [''peak_24h'']\<rparr>)]"


section \<open>Statements about the trainer\<close>

text \<open>
  The raw value of a target of the cluster in a record of the reference data, as the
  trainer reads it (converted to a number, 0 when it is missing or does not convert), and
  the records whose raw value is strictly positive.
\<close>

definition target_cell :: "ftype \<Rightarrow> column" where
  "target_cell t = (if t = current_players then C_current_players
                    else if t = peak_24h then C_peak_24h else C_peak_alltime)"

definition raw_target :: "builtins \<Rightarrow> ftype \<Rightarrow> row \<Rightarrow> pyfloat" where
  "raw_target B t r = to_numeric_fillna B (r (target_cell t))"

definition valid_rows :: "builtins \<Rightarrow> ftype \<Rightarrow> row list \<Rightarrow> row list" where
  "valid_rows B t data = filter (\<lambda>r. fpos (raw_target B t r)) data"

text \<open>
  A reference dataset for the examples: ten records with 7 current players, five of them
  with a 24-hour peak of 9 and five with none; and a \<open>train_model\<close> that always returns
  the same model.
\<close>

definition train_demo ::
  "pyfloat list list \<Rightarrow> pyfloat list \<Rightarrow> ftype \<Rightarrow> exn + (pyfloat list \<Rightarrow> exn + pyfloat)" where
  "train_demo X y t = Inr model_24h"

definition data_demo :: "row list" where
  "data_demo = replicate 5 (row_2018(C_current_players := PInt 7, C_peak_24h := PInt 9))
             @ replicate 5 (row_2018(C_current_players := PInt 7))"


text \<open>The bank the trainer returns on that dataset.\<close>

definition bank_trained :: model_bank where
  "bank_trained =
     [(current_players,
       \<lparr>model = model_24h,
        feature_cols = [''game_age_years'', ''is_free'', ''price_numeric'',
                        ''playtime_avg'', ''playtime_median'', ''playtime_price_ratio'',
                        ''peak_24h'', ''peak_alltime'', ''historical_growth'']\<rparr>)]"

section \<open>Statements about the orchestrator\<close>

text \<open>Collaborators that reach nothing.\<close>

definition env_none :: env where
  "env_none =
     \<lparr> get_game_details = (\<lambda>app_id. None),
       get_steamspy_data = (\<lambda>app_id. None),
       get_steamcharts_data = (\<lambda>app_id. (PNone, PNone)) \<rparr>"

text \<open>
  The row of a record once the values of the external completion are written to it (the
  row the loop of writes leaves when none of them raises).
\<close>

definition update_row :: "row \<Rightarrow> pydict \<Rightarrow> row" where
  "update_row r d = foldl (\<lambda>r' (field_cn, v). r'(field_cn := v)) r d"

text \<open>
  Two records without a price: one with its whole cluster, one with its current players
  only. And the same two as pandas reads them from a file in which no record has a price:
  the column of prices is then a column of floats, and an empty cell is NaN.
\<close>

definition row_noprice :: row where
  "row_noprice = row_cp50(C_peak_24h := PInt 250, C_peak_alltime := PInt 875, C_price := PNone)"

definition row_noprice_nopeaks :: row where
  "row_noprice_nopeaks = row_cp50(C_price := PNone)"

definition row_nanprice :: row where
  "row_nanprice = row_noprice(C_price := PFloat NaN)"

definition row_nanprice_nopeaks :: row where
  "row_nanprice_nopeaks = row_noprice_nopeaks(C_price := PFloat NaN)"

text \<open>
  The write of a cell on such a file, with pandas from its version 3: a string is refused
  for the column of prices, a column of floats, with a TypeError.
\<close>

definition float_price_builtins :: builtins where
  "float_price_builtins =
     demo_builtins\<lparr>at_set := (\<lambda>field_cn v. case v of
                                  PStr s \<Rightarrow> if field_cn = C_price then Some TypeError else None
                                | _ \<Rightarrow> None)\<rparr>"

text \<open>
  The outcome the specification states for a record that misses only its price: kept as
  salvaged, with the price \<open>Free\<close>, and not in the list of deletions.
\<close>

definition salvaged_free :: "outcome \<Rightarrow> bool" where
  "salvaged_free s =
     (decision_of s = Salvaged \<and> out_row s C_price = PStr ''Free'' \<and> deletions s = 0)"

text \<open>
  The rows a batch keeps, when each record is taken on its own: the rows of the records
  that are not dropped, as their processing left them.
\<close>

definition kept_rows ::
  "builtins \<Rightarrow> env \<Rightarrow> model_bank \<Rightarrow> int \<Rightarrow> (pyval \<times> row) list \<Rightarrow> (pyval \<times> row) list" where
  "kept_rows B E M Y rows =
     map (\<lambda>(a, r). (a, out_row (process_record B E M Y a r)))
       (filter (\<lambda>(a, r). decision_of (process_record B E M Y a r) \<noteq> Dropped) rows)"

text \<open>
  Aggregate statistics whose count of concurrent players is a string: comparing it with 0
  raises a TypeError inside external completion. And a batch of three records: a complete
  one, one without its cluster, one without its price.
\<close>

definition spy_bad :: steamspy where
  "spy_bad = \<lparr>average_forever = None, median_forever = None, ccu = Some (PStr ''12'')\<rparr>"

definition env_bad :: env where
  "env_bad =
     \<lparr> get_game_details = (\<lambda>app_id. None),
       get_steamspy_data = (\<lambda>app_id. Some spy_bad),
       get_steamcharts_data = (\<lambda>app_id. (PNone, PNone)) \<rparr>"

definition row_full :: row where
  "row_full = row_cp50(C_peak_24h := PInt 250, C_peak_alltime := PInt 875)"

definition rows_demo :: "(pyval \<times> row) list" where
  "rows_demo = [(PInt 1, row_full), (PInt 2, row_2018), (PInt 3, row_noprice)]"


section \<open>Properties of the classifier\<close>

declare nat_str.simps [simp del]

lemma lower_char_id: "c \<notin> set ''ABCDEFGHIJKLMNOPQRSTUVWXYZ'' \<Longrightarrow> lower_char c = c"
  by (simp add: lower_char_def)

lemma digit_not_upper: "is_digit c \<Longrightarrow> c \<notin> set ''ABCDEFGHIJKLMNOPQRSTUVWXYZ''"
  by (auto simp: is_digit_def)

lemma is_digit_lower: "is_digit c \<Longrightarrow> lower_char c = c"
  using lower_char_id digit_not_upper by blast

lemma lower_n_not_digits: "lower s = CHR ''n'' # t \<Longrightarrow> \<not> list_all is_digit s"
proof (cases s)
  case Nil
  assume "lower s = CHR ''n'' # t"
  with Nil show ?thesis by (simp add: lower_def)
next
  case (Cons c cs)
  assume "lower s = CHR ''n'' # t"
  with Cons have "lower_char c = CHR ''n''" by (simp add: lower_def)
  moreover have "\<not> is_digit (CHR ''n'')" by (simp add: is_digit_def)
  ultimately have "\<not> is_digit c" using is_digit_lower by metis
  with Cons show ?thesis by simp
qed

lemma blank_not_digits: "blank s \<Longrightarrow> dec_float s = None"
  unfolding blank_def dec_float_def
  using lower_n_not_digits [of s "''/a''"] lower_n_not_digits [of s "''an''"] by auto

lemma float_ok_demo: "float_ok demo_builtins"
  unfolding float_ok_def demo_builtins_def by (simp add: blank_not_digits)

lemma str_checks_numeric:
  "ft \<in> set numeric_fields \<Longrightarrow> str_checks s ft = (if blank s then Some True else None)"
  by (auto simp: str_checks_def numeric_fields_def blank_def)

lemma missing_numeric_str:
  assumes "ft \<in> set numeric_fields"
  shows "is_field_missing B (PStr s) ft =
     (blank (strip s)
      \<or> (case float_str B (strip s) of None \<Rightarrow> True | Some x \<Rightarrow> x = Fin 0 \<or> x = NaN))"
  using assms
  by (simp add: is_field_missing_def isna_def stripped_def str_checks_numeric py_float_def
           split: option.splits)

lemma missing_numeric_int:
  "ft \<in> set numeric_fields \<Longrightarrow> is_field_missing B (PInt i) ft = (i = 0)"
  by (simp add: is_field_missing_def isna_def stripped_def py_float_def)

lemma missing_numeric_float:
  "ft \<in> set numeric_fields \<Longrightarrow> is_field_missing B (PFloat f) ft = (f = Fin 0 \<or> f = NaN)"
  by (cases f) (simp_all add: is_field_missing_def isna_def stripped_def py_float_def)

lemma missing_none: "is_field_missing B PNone ft"
  by (simp add: is_field_missing_def isna_def)

text \<open>
  C7. For a numeric-count field, \<open>is_field_missing\<close> is true when the value is null (None
  or NaN), when \<open>float\<close> of the value, stripped as the code strips it, raises, and when it
  gives exactly zero; it is false when it gives a strictly positive number (\<open>float\<close>
  being Python's, which parses no blank text to a positive number).
\<close>

theorem numeric_count_missing:
  assumes "ft \<in> set numeric_fields"
  shows "(isna v \<longrightarrow> is_field_missing B v ft)
     \<and> (\<forall>e. py_float B (stripped v) = Inl e \<longrightarrow> is_field_missing B v ft)
     \<and> (py_float B (stripped v) = Inr (Fin 0) \<longrightarrow> is_field_missing B v ft)
     \<and> (\<forall>x. float_ok B \<longrightarrow> py_float B (stripped v) = Inr (Fin x) \<longrightarrow> 0 < x
            \<longrightarrow> \<not> is_field_missing B v ft)"
proof (cases v)
  case (PStr s)
  have ok: "float_ok B \<Longrightarrow> float_str B (strip s) = Some (Fin x) \<Longrightarrow> 0 < x
              \<Longrightarrow> \<not> blank (strip s)" for x
    unfolding float_ok_def by (metis not_less)
  show ?thesis
    using ok unfolding PStr missing_numeric_str [OF assms]
    by (auto simp: isna_def stripped_def py_float_def split: option.splits)
next
  case PNone
  then show ?thesis by (simp add: missing_none stripped_def py_float_def)
next
  case (PInt i)
  then show ?thesis
    by (auto simp: missing_numeric_int [OF assms] isna_def stripped_def py_float_def)
next
  case (PFloat f)
  then show ?thesis
    by (auto simp: missing_numeric_float [OF assms] isna_def stripped_def py_float_def
             split: pyfloat.splits)
qed

theorem numeric_count_missing_witness:
  "peak_24h \<in> set numeric_fields
   \<and> is_field_missing demo_builtins PNone peak_24h
   \<and> is_field_missing demo_builtins (PStr ''abc'') peak_24h
   \<and> is_field_missing demo_builtins (PStr '' 0 '') peak_24h
   \<and> float_ok demo_builtins
   \<and> \<not> is_field_missing demo_builtins (PStr '' 50'') peak_24h"
proof -
  have n: "peak_24h \<in> set numeric_fields" by (simp add: numeric_fields_def)
  have a: "isna PNone" by (simp add: isna_def)
  have b: "py_float demo_builtins (stripped (PStr ''abc'')) = Inl ValueError"
    by (simp add: py_float_def stripped_def strip_def is_space_def demo_builtins_def
          dec_float_def is_digit_def)
  have c: "py_float demo_builtins (stripped (PStr '' 0 '')) = Inr (Fin 0)"
    by (simp add: py_float_def stripped_def strip_def is_space_def demo_builtins_def
          dec_float_def is_digit_def dec_nat_def digit_val_def)
  have d: "py_float demo_builtins (stripped (PStr '' 50'')) = Inr (Fin 50)"
    by (simp add: py_float_def stripped_def strip_def is_space_def demo_builtins_def
          dec_float_def is_digit_def dec_nat_def digit_val_def)
  show ?thesis
    using n a b c d float_ok_demo
      numeric_count_missing [OF n, of PNone demo_builtins]
      numeric_count_missing [OF n, of "PStr ''abc''" demo_builtins]
      numeric_count_missing [OF n, of "PStr '' 0 ''" demo_builtins]
      numeric_count_missing [OF n, of "PStr '' 50''" demo_builtins]
    by simp
qed

section \<open>Properties of the heuristic estimator\<close>

lemma bind_exn_simps [simp]:
  "bind_exn (Inr x) f = f x" "bind_exn (Inl e) f = Inl e"
  by (simp_all add: bind_exn_def)

lemma fpos_pos: "fpos x = (pos x \<noteq> None)"
  by (simp add: fpos_def pos_def split: pyfloat.splits)

lemma pos_SomeD: "pos x = Some c \<Longrightarrow> x = Fin c \<and> 0 < c"
  by (simp add: pos_def split: pyfloat.splits if_splits)

lemma py_int_div: "pos x = Some c \<Longrightarrow> py_int (fdiv x (Fin k)) = Inr (trunc (c / k))"
  by (auto dest!: pos_SomeD simp: py_int_def fdiv_def)

lemma py_int_mul: "pos x = Some c \<Longrightarrow> py_int (fmul x (Fin k)) = Inr (trunc (c * k))"
  by (auto dest!: pos_SomeD simp: py_int_def fmul_def)

lemmas eval_defs = simple_estimate_def estimate_age_def year_age_def age_factors_def
  truthy_def in_strs_def py_str_def or_zero_def py_float_def py_int_def fdiv_def fmul_def
  fpos_def trunc_def floor_eq_iff dec_nat_def digit_val_def is_digit_def demo_builtins_def

text \<open>
  C4, as the specification states it, fails: the estimate is not the quotient but its
  integer part. With 3 current players and no release date (age 0, decay factor 0.8) the
  estimate of \<open>peak_24h\<close> is 3, and the quotient is 3.75.
\<close>

theorem simple_estimate_truncates:
  "simple_estimate demo_builtins 2026 row_cp3 [peak_24h] = Inr [(C_peak_24h, PInt 3)]
   \<and> estimate_age demo_builtins 2026 (row_cp3 C_release_date) = 0
   \<and> of_int 3 \<noteq> spec_peak_24h 3 0"
  by (simp add: eval_defs row_cp3_def row_none_def spec_peak_24h_def)

text \<open>
  C4, amended. When the three cells of the cluster convert to floats, the heuristic
  estimator returns a dictionary in which: \<open>peak_24h\<close>, when listed as missing, is the
  integer part of the current players over the decay factor when the current players are
  positive, else of the all-time peak over the all-time factor when that is positive, else
  absent; \<open>current_players\<close> and \<open>peak_alltime\<close>, when listed as missing, are the integer
  parts of the known \<open>peak_24h\<close> (the estimate just made, else the cell) times the decay
  and the all-time factor, when that \<open>peak_24h\<close> is positive, else absent; a target that
  is not listed as missing, and any other column, is absent. The factors are those of the
  band of the age (0 when the age is not known).
\<close>

theorem simple_estimate_derivation:
  assumes "py_float B (or_zero (r C_current_players)) = Inr cp"
      and "py_float B (or_zero (r C_peak_24h)) = Inr p24"
      and "py_float B (or_zero (r C_peak_alltime)) = Inr pa"
      and "age = estimate_age B Y (r C_release_date)"
      and "k = age_factors age"
      and "e24 = (if peak_24h \<in> set missing then derived_peak_24h k cp pa else None)"
      and "known = (case e24 of Some v \<Rightarrow> Fin (of_int v) | None \<Rightarrow> p24)"
  shows "\<exists>d. simple_estimate B Y r missing = Inr d
     \<and> map_of d C_peak_24h = map_option PInt e24
     \<and> map_of d C_current_players =
         (if current_players \<in> set missing
          then map_option (\<lambda>p. PInt (trunc (p * fst k))) (pos known) else None)
     \<and> map_of d C_peak_alltime =
         (if peak_alltime \<in> set missing
          then map_option (\<lambda>p. PInt (trunc (p * snd k))) (pos known) else None)
     \<and> (\<forall>c. critical_type c \<notin> set player_fields \<longrightarrow> map_of d c = None)
     \<and> k = (if age \<le> 2 then (8 / 10, 13 / 10)
            else if age \<le> 5 then (5 / 10, 2) else (2 / 10, 35 / 10))"
proof -
  have k: "k = age_factors (estimate_age B Y (r C_release_date))"
    using assms(4,5) by simp
  show ?thesis
    unfolding simple_estimate_def Let_def assms(1-3) bind_exn_simps assms(6,7)
    using k assms(4)
    apply (cases "pos cp"; cases "pos pa"; cases "pos p24")
    apply (auto simp: fpos_pos derived_peak_24h_def py_int_div py_int_mul update_conv'
              player_fields_def pos_def age_factors_def split: option.splits if_splits)
    done
qed

theorem simple_estimate_derivation_witness:
  "py_float demo_builtins (or_zero (row_cp50 C_current_players)) = Inr (Fin 50)
   \<and> py_float demo_builtins (or_zero (row_cp50 C_peak_24h)) = Inr (Fin 0)
   \<and> py_float demo_builtins (or_zero (row_cp50 C_peak_alltime)) = Inr (Fin 0)
   \<and> estimate_age demo_builtins 2026 (row_cp50 C_release_date) = 8
   \<and> map_sum id (\<lambda>d. (map_of d C_peak_24h, map_of d C_current_players, map_of d C_peak_alltime))
        (simple_estimate demo_builtins 2026 row_cp50 [peak_24h, peak_alltime])
       = Inr (Some (PInt 250), None, Some (PInt 875))"
proof -
  have h1: "py_float demo_builtins (or_zero (row_cp50 C_current_players)) = Inr (Fin 50)"
   and h2: "py_float demo_builtins (or_zero (row_cp50 C_peak_24h)) = Inr (Fin 0)"
   and h3: "py_float demo_builtins (or_zero (row_cp50 C_peak_alltime)) = Inr (Fin 0)"
   and h4: "8 = estimate_age demo_builtins 2026 (row_cp50 C_release_date)"
    by (simp_all add: eval_defs row_cp50_def row_2018_def)
  have h5: "(2 / 10, 35 / 10) = age_factors 8" by (simp add: age_factors_def)
  have pos50: "pos (Fin 50) = Some 50" and pos250: "pos (Fin 250) = Some 250"
    by (simp_all add: pos_def)
  have e: "derived_peak_24h (1 / 5, 7 / 2) (Fin 50) (Fin 0) = Some 250"
    by (simp add: derived_peak_24h_def pos50 trunc_def)
  from simple_estimate_derivation [OF h1 h2 h3 h4 h5 refl refl, of "[peak_24h, peak_alltime]"]
  obtain d where d: "simple_estimate demo_builtins 2026 row_cp50 [peak_24h, peak_alltime] = Inr d"
    "map_of d C_peak_24h = Some (PInt 250)" "map_of d C_current_players = None"
    "map_of d C_peak_alltime = Some (PInt 875)"
    by (auto simp: e pos250 trunc_def floor_eq_iff)
  show ?thesis using h1 h2 h3 h4 d by simp
qed

section \<open>Properties of feature extraction\<close>

lemmas feature_eval_defs = extract_features_for_prediction_def extract_features_def
  extract_price_def calculate_game_age_def to_numeric_fillna_def isna_def
  year_age_def truthy_def in_strs_def py_str_def or_zero_def py_float_def fdiv_def fpos_def
  first_number_def dec_rat_def dec_nat_def digit_val_def is_digit_def
  lower_def lower_char_def mianfei_def demo_builtins_def Let_def

text \<open>The ratio at inference is the one of the specification; in training it is not.\<close>

lemma inference_ratio:
  assumes "extract_features_for_prediction B Y r = Inr f"
  shows "f_playtime_price_ratio f = spec_playtime_price_ratio (f_playtime_avg f) (f_price_numeric f)"
  using assms
  by (auto simp: extract_features_for_prediction_def Let_def bind_exn_def
        spec_playtime_price_ratio_def split: sum.splits)

lemma training_ratio:
  "f_playtime_price_ratio (extract_features B Y r) =
     (let f = extract_features B Y r in
      if 0 < f_price_numeric f then fdiv (f_playtime_avg f) (Fin (max (f_price_numeric f) 1))
      else f_playtime_avg f)"
  by (simp add: extract_features_def Let_def)

text \<open>
  C3. The two extractions disagree on a record priced under one unit: with the price
  \<open>$0.99\<close> and 100 minutes of average play time, the extraction of the cleaner gives
  the ratio 100 / 0.99, as the specification says, and the extraction of the trainer,
  which divides by \<open>max(price_numeric, 1)\<close>, gives 100.
\<close>

theorem ratio_training_differs:
  "map_sum id f_price_numeric (extract_features_for_prediction demo_builtins 2026 row_cheap)
     = Inr (99 / 100)
   \<and> map_sum id f_playtime_price_ratio
        (extract_features_for_prediction demo_builtins 2026 row_cheap)
     = Inr (spec_playtime_price_ratio (Fin 100) (99 / 100))
   \<and> f_price_numeric (extract_features demo_builtins 2026 row_cheap) = 99 / 100
   \<and> f_playtime_avg (extract_features demo_builtins 2026 row_cheap) = Fin 100
   \<and> f_playtime_price_ratio (extract_features demo_builtins 2026 row_cheap) = Fin 100
   \<and> spec_playtime_price_ratio (Fin 100) (99 / 100) = Fin (10000 / 99)"
  by (simp add: feature_eval_defs spec_playtime_price_ratio_def row_cheap_def row_2018_def)

text \<open>
  C9, as the specification states it, fails: the extraction reads the year of the clock,
  and the same record gives the age 7 in 2025 and the age 8 in 2026.
\<close>

theorem extraction_reads_clock:
  "map_sum id f_game_age_years (extract_features_for_prediction demo_builtins 2025 row_cp50)
     = Inr 7
   \<and> map_sum id f_game_age_years (extract_features_for_prediction demo_builtins 2026 row_cp50)
     = Inr 8"
  by (simp add: feature_eval_defs row_cp50_def row_2018_def)

text \<open>
  C9, amended. Feature extraction is a function of the record and of the year of the
  clock, and the year enters the age only. For every record and any two years, the two
  extractions raise the same exception or give vectors that agree on every feature but
  \<open>game_age_years\<close>, and so do the extractions of two records that differ in their
  release date only: neither the year nor the release date influences another feature.
  And \<open>game_age_years\<close> is decided by the release date and the year: two records with the
  same release date, extracted in the same year, have the same age, whatever their other
  cells. The same holds of the extraction of the trainer.
\<close>

theorem extraction_deterministic:
  "map_sum id ageless (extract_features_for_prediction B Y r)
     = map_sum id ageless (extract_features_for_prediction B Y' (r(C_release_date := v)))
   \<and> (r' C_release_date = r C_release_date
        \<and> extract_features_for_prediction B Y r = Inr f
        \<and> extract_features_for_prediction B Y r' = Inr f'
      \<longrightarrow> f_game_age_years f' = f_game_age_years f)
   \<and> ageless (extract_features B Y r) = ageless (extract_features B Y' (r(C_release_date := v)))
   \<and> (r' C_release_date = r C_release_date
      \<longrightarrow> f_game_age_years (extract_features B Y r') = f_game_age_years (extract_features B Y r))"
proof (intro conjI impI)
  show "map_sum id ageless (extract_features_for_prediction B Y r)
     = map_sum id ageless (extract_features_for_prediction B Y' (r(C_release_date := v)))"
    by (simp add: extract_features_for_prediction_def Let_def bind_exn_def ageless_def
          split: sum.splits)
next
  assume a: "r' C_release_date = r C_release_date
        \<and> extract_features_for_prediction B Y r = Inr f
        \<and> extract_features_for_prediction B Y r' = Inr f'"
  let ?age = "\<lambda>d. if truthy d \<and> \<not> in_strs d [''N/A'', ''Coming Soon'', ''TBA'', '''']
                  then year_age B Y d (- 1) else - 1"
  have g: "f_game_age_years x = ?age (q C_release_date)"
    if "extract_features_for_prediction B Y q = Inr x" for q x
    using that
    by (auto simp: extract_features_for_prediction_def Let_def bind_exn_def split: sum.splits)
  from a g [of r f] g [of r' f'] show "f_game_age_years f' = f_game_age_years f"
    by simp
next
  show "ageless (extract_features B Y r)
      = ageless (extract_features B Y' (r(C_release_date := v)))"
    by (simp add: extract_features_def Let_def ageless_def)
next
  assume "r' C_release_date = r C_release_date"
  then show "f_game_age_years (extract_features B Y r')
      = f_game_age_years (extract_features B Y r)"
    by (simp add: extract_features_def Let_def)
qed

lemma extraction_cp50:
  "\<exists>f. extract_features_for_prediction demo_builtins 2026 row_cp50 = Inr f
       \<and> f_game_age_years f = 8"
  by (simp add: feature_eval_defs row_cp50_def row_2018_def)

lemma extraction_cheap:
  "\<exists>f. extract_features_for_prediction demo_builtins 2026 row_cheap = Inr f
       \<and> f_price_numeric f = 99 / 100"
  by (simp add: feature_eval_defs row_cheap_def row_2018_def)

theorem extraction_deterministic_witness:
  "row_cheap C_release_date = row_cp50 C_release_date
   \<and> row_cheap C_price \<noteq> row_cp50 C_price
   \<and> map_sum id f_game_age_years (extract_features_for_prediction demo_builtins 2026 row_cp50)
       = Inr 8
   \<and> map_sum id f_game_age_years (extract_features_for_prediction demo_builtins 2026 row_cheap)
       = Inr 8
   \<and> map_sum id ageless (extract_features_for_prediction demo_builtins 2025 row_cp50)
       = map_sum id ageless (extract_features_for_prediction demo_builtins 2026 row_cp50_2001)
   \<and> map_sum id f_game_age_years
        (extract_features_for_prediction demo_builtins 2026 row_cp50_2001) = Inr 25"
proof -
  have h: "row_cheap C_release_date = row_cp50 C_release_date"
   and n: "row_cheap C_price \<noteq> row_cp50 C_price"
    by (simp_all add: row_cheap_def row_cp50_def row_2018_def)
  from extraction_cp50 obtain f where
    f: "extract_features_for_prediction demo_builtins 2026 row_cp50 = Inr f"
    and f8: "f_game_age_years f = 8" by blast
  from extraction_cheap obtain f' where
    f': "extract_features_for_prediction demo_builtins 2026 row_cheap = Inr f'" by blast
  note t = extraction_deterministic
             [of demo_builtins 2026 row_cp50 2026 "PStr ''Mar 3, 2001''" row_cheap f f']
   and t' = extraction_deterministic
             [of demo_builtins 2025 row_cp50 2026 "PStr ''Mar 3, 2001''" row_cheap f f']
  from t h f f' have "f_game_age_years f' = f_game_age_years f" by blast
  with f8 have a: "map_sum id f_game_age_years
        (extract_features_for_prediction demo_builtins 2026 row_cp50) = Inr 8"
    and b: "map_sum id f_game_age_years
        (extract_features_for_prediction demo_builtins 2026 row_cheap) = Inr 8"
    by (simp_all add: f f')
  from t' have c: "map_sum id ageless (extract_features_for_prediction demo_builtins 2025 row_cp50)
       = map_sum id ageless (extract_features_for_prediction demo_builtins 2026 row_cp50_2001)"
    unfolding row_cp50_2001_def by (rule conjunct1)
  have d: "map_sum id f_game_age_years
        (extract_features_for_prediction demo_builtins 2026 row_cp50_2001) = Inr 25"
    by (simp add: feature_eval_defs row_cp50_2001_def row_cp50_def row_2018_def)
  from h n a b c d show ?thesis by (intro conjI)
qed

section \<open>Properties of external completion\<close>

lemma store_part_new:
  assumes "map_of (store_part g missing d) c \<noteq> map_of d c"
  shows "c \<in> store_columns \<inter> asked missing"
proof (cases g)
  case None
  with assms show ?thesis by (simp add: store_part_def)
next
  case (Some p)
  with assms show ?thesis
    by (cases "c = C_release_date"; cases "c = C_price")
       (auto simp: store_part_def Let_def update_conv' store_columns_def asked_def
             split: option.splits if_splits)
qed

lemma after_store_new:
  assumes "map_of (after_store E a missing) c \<noteq> None"
  shows "c \<in> store_columns \<inter> asked missing"
  using assms store_part_new [of "get_game_details E a" missing "[]" c]
  by (auto simp: after_store_def split: if_splits)

lemma spy_field_new:
  assumes "spy_field missing (critical_type col) col x d = Inr d'"
      and "map_of d' c \<noteq> map_of d c"
  shows "c = col \<and> c \<in> asked missing"
  using assms
  by (cases "c = col")
     (auto simp: spy_field_def bind_exn_def update_conv' asked_def split: if_splits sum.splits)

lemma spy_part_new:
  assumes "spy_part s missing d = Inr d'" and "map_of d' c \<noteq> map_of d c"
  shows "c \<in> spy_columns \<inter> asked missing"
proof (cases s)
  case None
  with assms show ?thesis by (simp add: spy_part_def)
next
  case (Some p)
  with assms(1) obtain d1 d2 d3 where
    s1: "spy_field missing (critical_type C_playtime_avg) C_playtime_avg (average_forever p) d = Inr d1" and
    s2: "spy_field missing (critical_type C_playtime_median) C_playtime_median (median_forever p) d1 = Inr d2" and
    s3: "spy_field missing (critical_type C_current_players) C_current_players (ccu p) d2 = Inr d3" and
    s4: "spy_field missing (critical_type C_peak_24h) C_peak_24h (ccu p) d3 = Inr d'"
    by (auto simp: spy_part_def bind_exn_def split: sum.splits)
  from assms(2) consider "map_of d1 c \<noteq> map_of d c" | "map_of d2 c \<noteq> map_of d1 c"
    | "map_of d3 c \<noteq> map_of d2 c" | "map_of d' c \<noteq> map_of d3 c"
    by metis
  then show ?thesis
  proof cases
    case 1 from spy_field_new [OF s1 1] show ?thesis by (auto simp: spy_columns_def)
  next
    case 2 from spy_field_new [OF s2 2] show ?thesis by (auto simp: spy_columns_def)
  next
    case 3 from spy_field_new [OF s3 3] show ?thesis by (auto simp: spy_columns_def)
  next
    case 4 from spy_field_new [OF s4 4] show ?thesis by (auto simp: spy_columns_def)
  qed
qed

lemma charts_part_new:
  assumes "map_of (charts_part ch missing d) c \<noteq> map_of d c"
  shows "c \<in> charts_columns \<inter> asked missing \<and> (c = C_peak_24h \<longrightarrow> map_of d c = None)"
  using assms
  by (cases ch; cases "c = C_peak_24h"; cases "c = C_peak_alltime")
     (auto simp: charts_part_def Let_def update_conv' charts_columns_def asked_def
           split: if_splits)

text \<open>
  C8. When external completion returns, each source has changed only entries of its own
  columns that were asked for, and only entries that were absent before it: the aggregate
  statistics change nothing the store details supplied, and the charts change nothing
  the store details or the aggregate statistics supplied.
\<close>

theorem fetch_frame:
  assumes "fetch_missing_data E a missing = Inr d"
  shows "\<exists>d2. after_spy E a missing = Inr d2
     \<and> (\<forall>c. map_of (after_store E a missing) c \<noteq> None \<longrightarrow> c \<in> store_columns \<inter> asked missing)
     \<and> (\<forall>c. map_of d2 c \<noteq> map_of (after_store E a missing) c
            \<longrightarrow> c \<in> spy_columns \<inter> asked missing \<and> map_of (after_store E a missing) c = None)
     \<and> (\<forall>c. map_of d c \<noteq> map_of d2 c
            \<longrightarrow> c \<in> charts_columns \<inter> asked missing \<and> map_of d2 c = None)"
proof -
  from assms obtain d2 where d2: "after_spy E a missing = Inr d2"
    and d: "d = (if peak_alltime \<in> set missing \<or> peak_24h \<in> set missing
                 then charts_part (get_steamcharts_data E a) missing d2 else d2)"
    by (auto simp: fetch_missing_data_def bind_exn_def split: sum.splits)
  let ?d1 = "after_store E a missing"
  have a1: "c \<in> store_columns \<inter> asked missing" if "map_of ?d1 c \<noteq> None" for c
    using that by (rule after_store_new)
  have a2: "c \<in> spy_columns \<inter> asked missing \<and> map_of ?d1 c = None"
    if h: "map_of d2 c \<noteq> map_of ?d1 c" for c
  proof -
    from d2 h have "spy_part (get_steamspy_data E a) missing ?d1 = Inr d2"
      by (auto simp: after_spy_def split: if_splits)
    from spy_part_new [OF this h] have s: "c \<in> spy_columns \<inter> asked missing" .
    then have "c \<notin> store_columns" by (auto simp: store_columns_def spy_columns_def)
    with a1 s show ?thesis by blast
  qed
  have a3: "c \<in> charts_columns \<inter> asked missing \<and> map_of d2 c = None"
    if h: "map_of d c \<noteq> map_of d2 c" for c
  proof -
    from d h have h': "map_of (charts_part (get_steamcharts_data E a) missing d2) c \<noteq> map_of d2 c"
      by (auto split: if_splits)
    note n = charts_part_new [OF h']
    show ?thesis
    proof (cases "c = C_peak_24h")
      case True with n show ?thesis by simp
    next
      case False
      with n have c: "c = C_peak_alltime" by (auto simp: charts_columns_def)
      then have "c \<notin> spy_columns" "c \<notin> store_columns"
        by (simp_all add: spy_columns_def store_columns_def)
      note this
      have "map_of ?d1 c = None" using a1 [of c] \<open>c \<notin> store_columns\<close>
        by (cases "map_of ?d1 c") auto
      moreover have "map_of d2 c = map_of ?d1 c" using a2 [of c] \<open>c \<notin> spy_columns\<close> by auto
      ultimately have "map_of d2 c = None" by simp
      with n show ?thesis by simp
    qed
  qed
  show ?thesis using d2 a1 a2 a3 by blast
qed

lemmas fetch_eval_defs = fetch_missing_data_def after_spy_def after_store_def spy_part_def
  spy_field_def charts_part_def store_part_def pos_check_def get0_def truthy_def fpos_def
  env_demo_def spy_demo_def

theorem fetch_frame_witness:
  "fetch_missing_data env_demo (PInt 10) [peak_24h, peak_alltime]
     = Inr [(C_peak_24h, PInt 120), (C_peak_alltime, PInt 900)]
   \<and> after_spy env_demo (PInt 10) [peak_24h, peak_alltime] = Inr [(C_peak_24h, PInt 120)]
   \<and> C_peak_alltime \<in> charts_columns \<inter> asked [peak_24h, peak_alltime]
   \<and> map_of [(C_peak_24h, PInt 120)] C_peak_alltime = None"
proof -
  have h: "fetch_missing_data env_demo (PInt 10) [peak_24h, peak_alltime]
     = Inr [(C_peak_24h, PInt 120), (C_peak_alltime, PInt 900)]"
    by (simp add: fetch_eval_defs)
  have s: "after_spy env_demo (PInt 10) [peak_24h, peak_alltime] = Inr [(C_peak_24h, PInt 120)]"
    by (simp add: fetch_eval_defs)
  from fetch_frame [OF h] s
  have "\<forall>c. map_of [(C_peak_24h, PInt 120), (C_peak_alltime, PInt 900)] c
            \<noteq> map_of [(C_peak_24h, PInt 120)] c
          \<longrightarrow> c \<in> charts_columns \<inter> asked [peak_24h, peak_alltime]
              \<and> map_of [(C_peak_24h, PInt 120)] c = None"
    by auto
  from this [rule_format, of C_peak_alltime] h s show ?thesis by simp
qed

section \<open>Properties of model-based estimation\<close>

lemma predict_clamped_eq:
  "predict_clamped mi fd =
     bind_exn (bind_exn (model mi (map (features_get fd) (feature_cols mi))) py_int)
       (\<lambda>i. Inr (max 0 i))"
  by (simp add: predict_clamped_def Let_def bind_exn_def split: sum.splits)

lemma predict_step_eq:
  "predict_step M missing t col store (est, fd) =
     (case (if t \<in> set missing then clamped_positive M t fd else None) of
        None \<Rightarrow> (est, fd)
      | Some p \<Rightarrow> (AList.update col (PInt p) est, store fd (Fin (of_int p))))"
  by (auto simp: predict_step_def clamped_positive_def predict_clamped_eq bind_exn_def
           split: option.splits sum.splits)

text \<open>
  C10. With a bank that is not empty and a record whose features extract, model-based
  estimation returns a dictionary in which each target of the cluster has a value exactly
  when it is listed as missing and its clamped prediction is strictly positive, the value
  being that integer; a prediction that clamps to zero or raises leaves the target absent,
  and so is a target that is not listed as missing, and any other column. The features of
  each prediction are those extracted, with the estimates made before it.
\<close>

theorem model_estimates:
  assumes "ml_models \<noteq> []"
      and "extract_features_for_prediction B Y r = Inr fd0"
      and "p24 = (if peak_24h \<in> set missing then clamped_positive ml_models peak_24h fd0 else None)"
      and "fd1 = (case p24 of None \<Rightarrow> fd0 | Some p \<Rightarrow> fd0\<lparr>f_peak_24h := Fin (of_int p)\<rparr>)"
      and "pc = (if current_players \<in> set missing
                 then clamped_positive ml_models current_players fd1 else None)"
      and "fd2 = (case pc of None \<Rightarrow> fd1 | Some p \<Rightarrow> fd1\<lparr>f_current_players := Fin (of_int p)\<rparr>)"
      and "fd3 = (if fpos (f_peak_24h fd2)
                  then fd2\<lparr>f_activity_ratio := fdiv (f_current_players fd2) (f_peak_24h fd2)\<rparr>
                  else fd2)"
      and "pa = (if peak_alltime \<in> set missing
                 then clamped_positive ml_models peak_alltime fd3 else None)"
  shows "\<exists>est. estimate_player_fields B ml_models Y r missing = Inr est
     \<and> map_of est C_peak_24h = map_option PInt p24
     \<and> map_of est C_current_players = map_option PInt pc
     \<and> map_of est C_peak_alltime = map_option PInt pa
     \<and> (\<forall>c. critical_type c \<notin> set player_fields \<longrightarrow> map_of est c = None)"
proof -
  define est1 where "est1 = (case p24 of None \<Rightarrow> [] | Some p \<Rightarrow> [(C_peak_24h, PInt p)])"
  have s1: "predict_step ml_models missing peak_24h C_peak_24h (\<lambda>fd p. fd\<lparr>f_peak_24h := p\<rparr>) ([], fd0)
      = (est1, fd1)"
    unfolding predict_step_eq assms(3,4) est1_def by (simp split: option.splits)
  define est2 where
    "est2 = (case pc of None \<Rightarrow> est1 | Some p \<Rightarrow> AList.update C_current_players (PInt p) est1)"
  have s2: "predict_step ml_models missing current_players C_current_players
        (\<lambda>fd p. fd\<lparr>f_current_players := p\<rparr>) (est1, fd1)
      = (est2, fd2)"
    unfolding predict_step_eq assms(5,6) est2_def by (simp split: option.splits)
  define est3 where
    "est3 = (case pa of None \<Rightarrow> est2 | Some p \<Rightarrow> AList.update C_peak_alltime (PInt p) est2)"
  have s3: "(if peak_alltime \<in> set missing then
                 (case map_of ml_models peak_alltime of
                    None \<Rightarrow> est2
                  | Some mi \<Rightarrow>
                      let fd3 = (if fpos (f_peak_24h fd2)
                                 then fd2\<lparr>f_activity_ratio :=
                                        fdiv (f_current_players fd2) (f_peak_24h fd2)\<rparr>
                                 else fd2)
                      in (case predict_clamped mi fd3 of
                            Inl e \<Rightarrow> est2
                          | Inr prediction \<Rightarrow>
                              if 0 < prediction
                              then AList.update C_peak_alltime (PInt prediction) est2
                              else est2))
               else est2) = est3"
    unfolding est3_def assms(8) assms(7) [symmetric]
    by (auto simp: clamped_positive_def predict_clamped_eq Let_def bind_exn_def
             split: option.splits sum.splits)
  have r: "estimate_player_fields B ml_models Y r missing = Inr est3"
    unfolding estimate_player_fields_def using assms(1)
    by (simp add: assms(2) s1 s2 s3 Let_def)
  have m: "map_of est3 C_peak_24h = map_option PInt p24"
    "map_of est3 C_current_players = map_option PInt pc"
    "map_of est3 C_peak_alltime = map_option PInt pa"
    "\<And>c. critical_type c \<notin> set player_fields \<Longrightarrow> map_of est3 c = None"
    by (auto simp: est3_def est2_def est1_def update_conv' player_fields_def split: option.splits)
  show ?thesis using r m by blast
qed

theorem model_estimates_witness:
  "bank_demo \<noteq> []
   \<and> map_sum id f_current_players (extract_features_for_prediction demo_builtins 2026 row_cp50)
       = Inr (Fin 50)
   \<and> map_sum id (\<lambda>est. (map_of est C_peak_24h, map_of est C_current_players,
                          map_of est C_peak_alltime))
        (estimate_player_fields demo_builtins bank_demo 2026 row_cp50
           [peak_24h, current_players, peak_alltime])
       = Inr (Some (PInt 250), None, None)"
proof -
  have ne: "bank_demo \<noteq> []" by (simp add: bank_demo_def)
  have "\<exists>fd0. extract_features_for_prediction demo_builtins 2026 row_cp50 = Inr fd0
          \<and> f_current_players fd0 = Fin 50"
    by (simp add: feature_eval_defs row_cp50_def row_2018_def)
  then obtain fd0 where fd0: "extract_features_for_prediction demo_builtins 2026 row_cp50 = Inr fd0"
    and cp: "f_current_players fd0 = Fin 50" by blast
  have c1: "clamped_positive bank_demo peak_24h fd0 = Some 250"
    by (simp add: clamped_positive_def bank_demo_def model_24h_def features_get_def cp fmul_def
          py_int_def trunc_def floor_eq_iff)
  have c2: "clamped_positive bank_demo current_players fd = None" for fd
    by (simp add: clamped_positive_def bank_demo_def model_negative_def py_int_def trunc_def)
  have c3: "clamped_positive bank_demo peak_alltime fd = None" for fd
    by (simp add: clamped_positive_def bank_demo_def model_raising_def)
  from model_estimates [OF ne fd0 refl refl refl refl refl refl,
      of "[peak_24h, current_players, peak_alltime]"]
  obtain est where "estimate_player_fields demo_builtins bank_demo 2026 row_cp50
           [peak_24h, current_players, peak_alltime] = Inr est"
    "map_of est C_peak_24h = Some (PInt 250)" "map_of est C_current_players = None"
    "map_of est C_peak_alltime = None"
    by (auto simp: c1 c2 c3)
  then show ?thesis using ne fd0 cp by simp
qed

section \<open>Properties of the trainer\<close>

lemma target_column_player:
  assumes "t \<in> set player_fields"
  shows "\<exists>col cols. target_column t = Some col \<and> target_feature_cols t = Some cols
           \<and> (\<forall>r. col (extract_features B Y r) = raw_target B t r)"
  using assms
  by (auto simp: player_fields_def target_column_def target_feature_cols_def raw_target_def
        target_cell_def extract_features_def Let_def)

lemma prepare_player:
  assumes "t \<in> set player_fields"
  shows "\<exists>cols. target_feature_cols t = Some cols \<and>
     prepare_training_data (map (extract_features B Y) data) t =
       Inr (map (\<lambda>r. map (features_get (extract_features B Y r)) cols) (valid_rows B t data),
            map (raw_target B t) (valid_rows B t data), cols)"
proof -
  from target_column_player [OF assms, of B Y] obtain col cols where
    c: "target_column t = Some col" "target_feature_cols t = Some cols"
       "\<And>r. col (extract_features B Y r) = raw_target B t r" by blast
  have f: "filter (\<lambda>f. fpos (col f)) (map (extract_features B Y) data)
             = map (extract_features B Y) (valid_rows B t data)"
    by (simp add: filter_map comp_def c(3) valid_rows_def)
  show ?thesis
    by (simp add: prepare_training_data_def c(1,2) f Let_def comp_def c(3))
qed

lemma train_loop_result:
  assumes "train_loop tm fs ts models = Inr bank" "distinct ts"
  shows "(t \<notin> set ts \<longrightarrow> map_of bank t = map_of models t)
     \<and> (t \<in> set ts \<longrightarrow> (\<exists>X y cols. prepare_training_data fs t = Inr (X, y, cols)
           \<and> (if length X < 10 then map_of bank t = map_of models t
               else \<exists>m. tm X y t = Inr m
                      \<and> map_of bank t = Some \<lparr>model = m, feature_cols = cols\<rparr>)))"
  using assms
proof (induction ts arbitrary: models)
  case Nil
  then show ?case by simp
next
  case (Cons target rest)
  from Cons.prems(1) obtain X y cols where
    p: "prepare_training_data fs target = Inr (X, y, cols)"
    by (auto split: sum.splits)
  from Cons.prems(2) have d: "distinct rest" "target \<notin> set rest" by simp_all
  show ?case
  proof (cases "length X < 10")
    case True
    with Cons.prems(1) p have r: "train_loop tm fs rest models = Inr bank" by simp
    note ih = Cons.IH [OF r d(1)]
    show ?thesis
    proof (cases "t = target")
      case eq: True
      with d(2) ih have "map_of bank t = map_of models t" by simp
      with eq p True show ?thesis by simp
    next
      case False
      with ih show ?thesis by simp
    qed
  next
    case False
    with Cons.prems(1) p obtain m where m: "tm X y target = Inr m"
      and r: "train_loop tm fs rest
                (AList.update target \<lparr>model = m, feature_cols = cols\<rparr> models) = Inr bank"
      by (auto split: sum.splits)
    note ih = Cons.IH [OF r d(1)]
    show ?thesis
    proof (cases "t = target")
      case eq: True
      with d(2) ih have "map_of bank t = Some \<lparr>model = m, feature_cols = cols\<rparr>"
        by (simp add: update_conv')
      with eq p False m show ?thesis by simp
    next
      case ne: False
      then have e: "map_of (AList.update target \<lparr>model = m, feature_cols = cols\<rparr> models) t
                   = map_of models t"
        by (simp add: update_conv')
      from ih [unfolded e] ne show ?thesis by simp
    qed
  qed
qed

lemma train_loop_total:
  assumes "\<forall>X y t. \<exists>m. tm X y t = Inr m" "set ts \<subseteq> set player_fields"
      and "\<And>t. t \<in> set player_fields \<Longrightarrow> \<exists>z. prepare_training_data fs t = Inr z"
  shows "\<exists>bank. train_loop tm fs ts models = Inr bank"
  using assms(2)
proof (induction ts arbitrary: models)
  case Nil
  then show ?case by simp
next
  case (Cons target rest)
  then have "target \<in> set player_fields" by simp
  from assms(3) [OF this] obtain X y cols where
    p: "prepare_training_data fs target = Inr (X, y, cols)" by (metis prod_cases3)
  from assms(1) obtain m where m: "tm X y target = Inr m" by blast
  from Cons have ih: "\<exists>bank. train_loop tm fs rest ms = Inr bank" for ms by simp
  show ?case using p m ih by simp
qed

text \<open>
  C5. For each target of the cluster, when the trainer returns a bank (which is the bank
  it persists), the bank has an entry for the target if and only if at least 10 records
  of the reference data have a strictly positive raw value of the target, and the model
  of the entry is what \<open>train_model\<close> returned on exactly those records (their feature
  rows and their target values). The trainer returns a bank whenever \<open>train_model\<close>
  raises no exception.
\<close>

theorem trainer_threshold:
  assumes "t \<in> set player_fields"
  shows "(\<forall>bank. train_all_models B Y train_model data = Inr bank \<longrightarrow>
            (map_of bank t \<noteq> None) = (10 \<le> length (valid_rows B t data))
          \<and> (\<forall>mi. map_of bank t = Some mi \<longrightarrow>
               train_model
                 (map (\<lambda>r. map (features_get (extract_features B Y r)) (feature_cols mi))
                    (valid_rows B t data))
                 (map (raw_target B t) (valid_rows B t data)) t = Inr (model mi)))
     \<and> ((\<forall>X y t'. \<exists>m. train_model X y t' = Inr m) \<longrightarrow>
          (\<exists>bank. train_all_models B Y train_model data = Inr bank))"
proof (intro conjI allI impI)
  fix bank
  assume b: "train_all_models B Y train_model data = Inr bank"
  let ?fs = "map (extract_features B Y) data"
  from prepare_player [OF assms, of B Y data] obtain cols where
    p: "prepare_training_data ?fs t =
       Inr (map (\<lambda>r. map (features_get (extract_features B Y r)) cols) (valid_rows B t data),
            map (raw_target B t) (valid_rows B t data), cols)" by blast
  from b have l: "train_loop train_model ?fs [current_players, peak_24h, peak_alltime] [] = Inr bank"
    by (simp add: train_all_models_def)
  have t: "t \<in> set [current_players, peak_24h, peak_alltime]"
    using assms by (simp add: player_fields_def)
  from train_loop_result [OF l, of t] t p
  have r: "if length (valid_rows B t data) < 10 then map_of bank t = None
           else \<exists>m. train_model
                 (map (\<lambda>r. map (features_get (extract_features B Y r)) cols) (valid_rows B t data))
                 (map (raw_target B t) (valid_rows B t data)) t = Inr m
               \<and> map_of bank t = Some \<lparr>model = m, feature_cols = cols\<rparr>"
    by (auto split: if_splits)
  show "(map_of bank t \<noteq> None) = (10 \<le> length (valid_rows B t data))"
    using r by (auto split: if_splits)
  fix mi
  assume "map_of bank t = Some mi"
  with r show "train_model
                 (map (\<lambda>r. map (features_get (extract_features B Y r)) (feature_cols mi))
                    (valid_rows B t data))
                 (map (raw_target B t) (valid_rows B t data)) t = Inr (model mi)"
    by (auto split: if_splits)
next
  assume a: "\<forall>X y t'. \<exists>m. train_model X y t' = Inr m"
  have "\<exists>z. prepare_training_data (map (extract_features B Y) data) t' = Inr z"
    if "t' \<in> set player_fields" for t'
    using prepare_player [OF that, of B Y data] by blast
  from train_loop_total [OF a _ this, of "[current_players, peak_24h, peak_alltime]" "[]"]
  show "\<exists>bank. train_all_models B Y train_model data = Inr bank"
    by (simp add: train_all_models_def player_fields_def)
qed

theorem trainer_threshold_witness:
  "current_players \<in> set player_fields
   \<and> peak_24h \<in> set player_fields
   \<and> train_all_models demo_builtins 2026 train_demo data_demo = Inr bank_trained
   \<and> 10 \<le> length (valid_rows demo_builtins current_players data_demo)
   \<and> \<not> 10 \<le> length (valid_rows demo_builtins peak_24h data_demo)"
proof -
  have m: "current_players \<in> set player_fields" "peak_24h \<in> set player_fields"
    by (simp_all add: player_fields_def)
  have e: "train_all_models demo_builtins 2026 train_demo data_demo = Inr bank_trained"
    by (simp add: train_all_models_def data_demo_def train_demo_def prepare_training_data_def
          target_column_def target_feature_cols_def feature_eval_defs row_2018_def
          bank_trained_def)
  have b: "map_of bank_trained current_players \<noteq> None" "map_of bank_trained peak_24h = None"
    by (simp_all add: bank_trained_def)
  from trainer_threshold [OF m(1), of demo_builtins 2026 train_demo data_demo] e b(1)
  have c: "10 \<le> length (valid_rows demo_builtins current_players data_demo)" by blast
  from trainer_threshold [OF m(2), of demo_builtins 2026 train_demo data_demo] e b(2)
  have p: "\<not> 10 \<le> length (valid_rows demo_builtins peak_24h data_demo)" by blast
  from m e c p show ?thesis by (intro conjI)
qed

section \<open>Properties of the orchestrator\<close>

lemma fetch_keys_asked:
  assumes "fetch_missing_data E a missing = Inr d" "map_of d c \<noteq> None"
  shows "critical_type c \<in> set missing"
proof -
  from assms(1) obtain d2 where d2: "after_spy E a missing = Inr d2"
    and d: "d = (if peak_alltime \<in> set missing \<or> peak_24h \<in> set missing
                 then charts_part (get_steamcharts_data E a) missing d2 else d2)"
    by (auto simp: fetch_missing_data_def bind_exn_def split: sum.splits)
  let ?d1 = "after_store E a missing"
  have "c \<in> asked missing"
  proof (cases "map_of d c = map_of d2 c")
    case False
    with d have "map_of (charts_part (get_steamcharts_data E a) missing d2) c \<noteq> map_of d2 c"
      by (auto split: if_splits)
    from charts_part_new [OF this] show ?thesis by simp
  next
    case True
    show ?thesis
    proof (cases "map_of d2 c = map_of ?d1 c")
      case False
      with d2 have "spy_part (get_steamspy_data E a) missing ?d1 = Inr d2"
        by (auto simp: after_spy_def split: if_splits)
      from spy_part_new [OF this False] show ?thesis by simp
    next
      case eq: True
      with True assms(2) have "map_of ?d1 c \<noteq> None" by simp
      from after_store_new [OF this] show ?thesis by simp
    qed
  qed
  then show ?thesis by (simp add: asked_def)
qed

lemma at_write_Inl: "at_write B s c v = Inl (e, s') \<Longrightarrow> s' = s"
  by (simp add: at_write_def split: option.splits)

lemma at_write_Inr: "at_write B s c v = Inr s' \<Longrightarrow> s' = s\<lparr>out_row := (out_row s)(c := v)\<rparr>"
  by (simp add: at_write_def split: option.splits)

lemma write_all_Inr:
  "write_all B d s = Inr s' \<Longrightarrow> s' = s\<lparr>out_row := update_row (out_row s) d\<rparr>"
proof (induction d arbitrary: s)
  case Nil
  then show ?case by (simp add: update_row_def)
next
  case (Cons p d)
  obtain c v where p: "p = (c, v)" by (cases p)
  from Cons.prems p obtain s1 where w: "at_write B s c v = Inr s1" and r: "write_all B d s1 = Inr s'"
    by (auto split: sum.splits)
  have u: "update_row (out_row s) (p # d) = update_row ((out_row s)(c := v)) d"
    by (simp add: p update_row_def)
  from Cons.IH [OF r] show ?case
    unfolding u at_write_Inr [OF w] by (simp add: fun_upd_def)
qed

lemma write_all_Inl:
  "write_all B d s = Inl (e, s') \<Longrightarrow>
     deletions s' = deletions s \<and> completed s' = completed s \<and> printed s' = printed s"
proof (induction d arbitrary: s)
  case Nil
  then show ?case by simp
next
  case (Cons p d)
  obtain c v where p: "p = (c, v)" by (cases p)
  show ?case
  proof (cases "at_write B s c v")
    case (Inl x)
    with Cons.prems p have "at_write B s c v = Inl (e, s')" by simp
    from at_write_Inl [OF this] show ?thesis by simp
  next
    case (Inr s1)
    with Cons.prems p have "write_all B d s1 = Inl (e, s')" by simp
    from Cons.IH [OF this] at_write_Inr [OF Inr] show ?thesis by simp
  qed
qed

lemma update_row_other: "map_of d c = None \<Longrightarrow> update_row r d c = r c"
  unfolding update_row_def
  by (induction d arbitrary: r) (auto split: if_splits)

lemma missing_of_iff:
  "critical_type c \<in> set (missing_of B r) \<longleftrightarrow> is_field_missing B (r c) (critical_type c)"
  by (cases c) (auto simp: missing_of_def critical_fields_def)

lemma player_filter:
  "filter (\<lambda>f. critical_type f \<in> set player_fields)
     (map fst (filter (\<lambda>(c, ft). Q c ft) critical_fields))
   = filter (\<lambda>c. Q c (critical_type c)) [C_current_players, C_peak_24h, C_peak_alltime]"
  by (simp add: critical_fields_def player_fields_def)

lemma still_missing_mem:
  "c \<in> set (map fst (filter (\<lambda>(c, ft). Q c ft) critical_fields)) \<longleftrightarrow> Q c (critical_type c)"
  by (cases c) (auto simp: critical_fields_def)

lemma player_phase_all_missing:
  assumes "filter (\<lambda>f. critical_type f \<in> set player_fields) still_missing
             = [C_current_players, C_peak_24h, C_peak_alltime]"
  shows "player_phase B M Y s still_missing =
     Inr (s\<lparr>deletions := deletions s + 1, printed := printed s @ [E_delete_all_players]\<rparr>,
          still_missing)"
  unfolding player_phase_def Let_def assms by (simp add: player_fields_def)

text \<open>
  C1. When external completion returns and the three cells of the cluster are still
  classified missing in the row it completed, the record is dropped (its index is in the
  list of deletions), no estimation is attempted (the message of the attempt is not
  printed), and the outcome is the same whatever the model bank.
\<close>

theorem all_cluster_missing_dropped:
  assumes f: "fetch_missing_data E app_id (missing_of B r) = Inr d"
      and m1: "is_field_missing B (update_row r d C_current_players) current_players"
      and m2: "is_field_missing B (update_row r d C_peak_24h) peak_24h"
      and m3: "is_field_missing B (update_row r d C_peak_alltime) peak_alltime"
  shows "decision_of (process_record B E M Y app_id r) = Dropped
     \<and> E_estimate \<notin> set (printed (process_record B E M Y app_id r))
     \<and> process_record B E M' Y app_id r = process_record B E M Y app_id r"
proof -
  let ?mf = "missing_of B r"
  have in_mf: "critical_type c \<in> set ?mf"
    if "is_field_missing B (update_row r d c) (critical_type c)" for c
  proof (rule ccontr)
    assume n: "critical_type c \<notin> set ?mf"
    with fetch_keys_asked [OF f, of c] have "map_of d c = None" by blast
    then have "update_row r d c = r c" by (rule update_row_other)
    with that have "is_field_missing B (r c) (critical_type c)" by simp
    with n show False by (simp add: missing_of_iff)
  qed
  have t1: "current_players \<in> set ?mf" using in_mf [of C_current_players] m1 by simp
  have t2: "peak_24h \<in> set ?mf" using in_mf [of C_peak_24h] m2 by simp
  have t3: "peak_alltime \<in> set ?mf" using in_mf [of C_peak_alltime] m3 by simp
  have ne: "?mf \<noteq> []" using t1 by auto
  have np: "\<not> price_only_unfetched ?mf d"
    using t1 by (cases ?mf) (auto simp: price_only_unfetched_def)
  define s0 where "s0 = start_state r ?mf"
  define sf where "sf = s0\<lparr>printed := printed s0 @ [E_filled (length d)]\<rparr>"
  have pf0: "E_estimate \<notin> set (printed s0)" "E_estimate \<notin> set (printed sf)"
    by (simp_all add: sf_def s0_def start_state_def)
  show ?thesis
  proof (cases "if d \<noteq> [] then write_all B d sf else Inr s0")
    case (Inl x)
    obtain e s' where x: "x = (e, s')" by (cases x)
    from Inl x have w: "write_all B d sf = Inl (e, s')" by (simp split: if_splits)
    from write_all_Inl [OF w] pf0 have p1: "E_estimate \<notin> set (printed s')" by simp
    have att: "attempts B M Y ?mf d s0 = Inl (e, s')" for M
      unfolding attempts_def sf_def [symmetric] Inl x by simp
    have pr: "process_record B E M Y app_id r =
        s'\<lparr>deletions := deletions s' + 1, printed := printed s' @ [E_error e]\<rparr>" for M
      using ne np
      by (simp add: process_record_def Let_def try_body_def f att s0_def [symmetric])
    show ?thesis
      using p1 by (simp add: pr decision_of_def)
  next
    case (Inr s1)
    have row1: "out_row s1 = update_row r d" and p1: "E_estimate \<notin> set (printed s1)"
    proof -
      show "out_row s1 = update_row r d"
      proof (cases "d = []")
        case True
        with Inr show ?thesis by (auto simp: s0_def start_state_def update_row_def)
      next
        case False
        with Inr have "write_all B d sf = Inr s1" by simp
        from write_all_Inr [OF this] show ?thesis
          by (simp add: sf_def s0_def start_state_def)
      qed
      show "E_estimate \<notin> set (printed s1)"
      proof (cases "d = []")
        case True
        with Inr pf0 show ?thesis by simp
      next
        case False
        with Inr have "write_all B d sf = Inr s1" by simp
        from write_all_Inr [OF this] pf0 show ?thesis by simp
      qed
    qed
    define sm where "sm = map fst (filter (\<lambda>(field_cn, ft). ft \<in> set ?mf
                                  \<and> is_field_missing B (out_row s1 field_cn) ft) critical_fields)"
    have pf: "filter (\<lambda>f. critical_type f \<in> set player_fields) sm
                = [C_current_players, C_peak_24h, C_peak_alltime]"
      unfolding sm_def player_filter using t1 t2 t3 m1 m2 m3 by (simp add: row1)
    have sm_cp: "C_current_players \<in> set sm"
      unfolding sm_def still_missing_mem using t1 m1 by (simp add: row1)
    have att: "attempts B M Y ?mf d s0 =
       Inr (s1\<lparr>deletions := deletions s1 + 1, printed := printed s1 @ [E_delete_all_players]\<rparr>, sm)"
      for M
      unfolding attempts_def sf_def [symmetric] Inr sum.case Let_def sm_def [symmetric]
      by (rule player_phase_all_missing [OF pf])
    have sm_ne: "sm \<noteq> [C_price]" "sm \<noteq> []" using sm_cp by auto
    have pr: "process_record B E M Y app_id r =
        s1\<lparr>deletions := deletions s1 + 2,
            printed := printed s1 @ [E_delete_all_players, E_unresolved sm]\<rparr>" for M
      using ne np sm_ne
      by (simp add: process_record_def Let_def try_body_def f att s0_def [symmetric] final_phase_def)
    show ?thesis
      using p1 by (simp add: pr decision_of_def)
  qed
qed


lemmas missing_eval_defs = missing_of_def critical_fields_def is_field_missing_def isna_def
  stripped_def strip_def is_space_def str_checks_def lower_def lower_char_def numeric_fields_def
  py_float_def demo_builtins_def dec_float_def is_digit_def dec_nat_def digit_val_def

lemma missing_row_2018:
  "missing_of demo_builtins row_2018 = [current_players, peak_24h, peak_alltime]"
  by (simp add: missing_eval_defs row_2018_def)

theorem all_cluster_missing_dropped_witness:
  "fetch_missing_data env_none (PInt 10) (missing_of demo_builtins row_2018) = Inr []
   \<and> is_field_missing demo_builtins (update_row row_2018 [] C_current_players) current_players
   \<and> is_field_missing demo_builtins (update_row row_2018 [] C_peak_24h) peak_24h
   \<and> is_field_missing demo_builtins (update_row row_2018 [] C_peak_alltime) peak_alltime
   \<and> decision_of (process_record demo_builtins env_none bank_demo 2026 (PInt 10) row_2018)
       = Dropped
   \<and> E_estimate \<notin> set (printed
         (process_record demo_builtins env_none bank_demo 2026 (PInt 10) row_2018))"
proof -
  have f: "fetch_missing_data env_none (PInt 10) (missing_of demo_builtins row_2018) = Inr []"
    by (simp add: missing_row_2018 fetch_missing_data_def after_spy_def after_store_def
          spy_part_def charts_part_def truthy_def env_none_def)
  have m: "is_field_missing demo_builtins (update_row row_2018 [] C_current_players) current_players"
    "is_field_missing demo_builtins (update_row row_2018 [] C_peak_24h) peak_24h"
    "is_field_missing demo_builtins (update_row row_2018 [] C_peak_alltime) peak_alltime"
    by (simp_all add: update_row_def row_2018_def missing_numeric_int numeric_fields_def)
  from all_cluster_missing_dropped [OF f m, of bank_demo 2026 bank_demo] f m
  show ?thesis by simp
qed

section \<open>The two rules that fill the price\<close>

lemma apply_estimates_keeps:
  assumes "apply_estimates B est (s, a, b) = Inr (s', a', b')"
  shows "deletions s' = deletions s \<and> completed s' = completed s \<and> printed s' = printed s"
  using assms
proof (induction est arbitrary: s a b)
  case Nil
  then show ?case by simp
next
  case (Cons p est)
  obtain c v where p: "p = (c, v)" by (cases p)
  from Cons.prems p obtain s1 where w: "at_write B s c v = Inr s1"
    by (auto split: sum.splits)
  note k = at_write_Inr [OF w]
  show ?case
  proof (cases "c \<in> set a")
    case True
    with Cons.prems p w have "apply_estimates B est (s1, remove1 c a, remove1 c b) = Inr (s', a', b')"
      by (simp split: if_splits)
    from Cons.IH [OF this] k show ?thesis by simp
  next
    case False
    with Cons.prems p w have "apply_estimates B est (s1, a, b) = Inr (s', a', b')"
      by simp
    from Cons.IH [OF this] k show ?thesis by simp
  qed
qed

lemma player_phase_deletions:
  assumes "player_phase B M Y s sm = Inr (s2, sm2)"
  shows "deletions s2 = deletions s \<or> sm2 \<noteq> [C_price]"
proof (cases "filter (\<lambda>f. critical_type f \<in> set player_fields) sm = []")
  case True
  with assms show ?thesis by (simp add: player_phase_def)
next
  case ne: False
  let ?mpf = "filter (\<lambda>f. critical_type f \<in> set player_fields) sm"
  show ?thesis
  proof (cases "set (map critical_type ?mpf) = set player_fields")
    case True
    with assms ne have sm2: "sm2 = sm" by (simp add: player_phase_def Let_def)
    from ne obtain c where "c \<in> set ?mpf" by (cases ?mpf) auto
    then have "c \<in> set sm" "critical_type c \<in> set player_fields" by auto
    then have "sm \<noteq> [C_price]" by (auto simp: player_fields_def)
    with sm2 show ?thesis by simp
  next
    case False
    let ?s1 = "s\<lparr>printed := printed s @ [E_estimate]\<rparr>"
    from assms ne False obtain est where
      e: "estimate_player_fields B M Y (out_row ?s1) (map critical_type ?mpf) = Inr est"
      by (auto simp: player_phase_def Let_def split: sum.splits)
    from assms ne False e obtain a' b' where
      "(if est \<noteq> []
        then apply_estimates B est (?s1\<lparr>printed := printed ?s1 @ [E_estimated (length est)]\<rparr>, ?mpf, sm)
        else Inr (?s1, ?mpf, sm)) = Inr (s2, a', b')"
      by (auto simp: player_phase_def Let_def split: sum.splits)
    then have "deletions s2 = deletions s"
      using apply_estimates_keeps by (auto split: if_splits)
    then show ?thesis by simp
  qed
qed

lemma attempts_deletions:
  assumes "attempts B M Y mf d s = Inr (s2, [C_price])"
  shows "deletions s2 = deletions s"
proof -
  from assms obtain s1 where
    w: "(if d \<noteq> [] then write_all B d (s\<lparr>printed := printed s @ [E_filled (length d)]\<rparr>)
         else Inr s) = Inr s1"
    and p: "player_phase B M Y s1
              (map fst (filter (\<lambda>(field_cn, ft). ft \<in> set mf
                                  \<and> is_field_missing B (out_row s1 field_cn) ft)
                         critical_fields)) = Inr (s2, [C_price])"
    by (auto simp: attempts_def Let_def split: sum.splits)
  from w have "deletions s1 = deletions s"
    by (auto dest: write_all_Inr split: if_splits)
  with player_phase_deletions [OF p] show ?thesis by simp
qed

text \<open>
  In both rules the outcome of the record is decided by the write of \<open>Free\<close>: the record
  is salvaged when the write is accepted, and dropped by the handler when it raises.
\<close>

lemma price_only_rule_a:
  assumes "missing_of B r = [price]" "fetch_missing_data E app_id [price] = Inr d"
      and "map_of d C_price = None"
  shows "at_set B C_price (PStr ''Free'') = None \<Longrightarrow>
           salvaged_free (process_record B E M Y app_id r)"
    and "at_set B C_price (PStr ''Free'') = Some e \<Longrightarrow>
           decision_of (process_record B E M Y app_id r) = Dropped
           \<and> out_row (process_record B E M Y app_id r) = r
           \<and> last (printed (process_record B E M Y app_id r)) = E_error e"
  using assms
  by (simp_all add: process_record_def try_body_def price_only_unfetched_def start_state_def
        at_write_def salvaged_free_def decision_of_def)

lemma price_only_rule_b:
  assumes "missing_of B r \<noteq> []" "fetch_missing_data E app_id (missing_of B r) = Inr d"
      and "\<not> price_only_unfetched (missing_of B r) d"
      and "attempts B M Y (missing_of B r) d (start_state r (missing_of B r)) = Inr (s2, [C_price])"
  shows "at_set B C_price (PStr ''Free'') = None \<Longrightarrow>
           salvaged_free (process_record B E M Y app_id r)"
    and "at_set B C_price (PStr ''Free'') = Some e \<Longrightarrow>
           decision_of (process_record B E M Y app_id r) = Dropped
           \<and> out_row (process_record B E M Y app_id r) = out_row s2
           \<and> last (printed (process_record B E M Y app_id r)) = E_error e"
proof -
  from attempts_deletions [OF assms(4)] have d0: "deletions s2 = 0"
    by (simp add: start_state_def)
  have pr: "process_record B E M Y app_id r =
      (case final_phase B s2 [C_price] of
         Inr s' \<Rightarrow> s'
       | Inl (e, s') \<Rightarrow> s'\<lparr>deletions := deletions s' + 1, printed := printed s' @ [E_error e]\<rparr>)"
    using assms by (simp add: process_record_def try_body_def Let_def)
  show "at_set B C_price (PStr ''Free'') = None \<Longrightarrow>
           salvaged_free (process_record B E M Y app_id r)"
    using d0 by (simp add: pr final_phase_def at_write_def salvaged_free_def decision_of_def)
  show "at_set B C_price (PStr ''Free'') = Some e \<Longrightarrow>
           decision_of (process_record B E M Y app_id r) = Dropped
           \<and> out_row (process_record B E M Y app_id r) = out_row s2
           \<and> last (printed (process_record B E M Y app_id r)) = E_error e"
    by (simp add: pr final_phase_def at_write_def decision_of_def)
qed

lemma at_set_demo: "at_set demo_builtins c v = None"
  by (simp add: demo_builtins_def)

lemma at_set_float_price: "at_set float_price_builtins C_price (PStr s) = Some TypeError"
  by (simp add: float_price_builtins_def)

lemma missing_row_noprice: "missing_of demo_builtins row_noprice = [price]"
  by (simp add: missing_eval_defs row_noprice_def row_cp50_def row_2018_def)

lemma missing_row_nanprice:
  "missing_of demo_builtins row_nanprice = [price]"
  "missing_of float_price_builtins row_nanprice = [price]"
  by (simp_all add: missing_eval_defs float_price_builtins_def row_nanprice_def row_noprice_def
        row_cp50_def row_2018_def)

lemma missing_row_nanprice_nopeaks:
  "missing_of demo_builtins row_nanprice_nopeaks = [price, peak_24h, peak_alltime]"
  "missing_of float_price_builtins row_nanprice_nopeaks = [price, peak_24h, peak_alltime]"
  by (simp_all add: missing_eval_defs float_price_builtins_def row_nanprice_nopeaks_def
        row_noprice_nopeaks_def row_cp50_def row_2018_def)

lemma fetch_none: "fetch_missing_data env_none a mf = Inr []"
  by (simp add: fetch_missing_data_def after_spy_def after_store_def store_part_def
        spy_part_def charts_part_def truthy_def env_none_def)

lemma two_of_cluster: "{peak_24h, peak_alltime} \<noteq> {current_players, peak_24h, peak_alltime}"
  by auto

lemmas attempts_eval_defs = attempts_def player_phase_def start_state_def critical_fields_def
  player_fields_def estimate_player_fields_def eval_defs at_write_def
  is_field_missing_def isna_def stripped_def numeric_fields_def float_price_builtins_def
  row_nanprice_nopeaks_def row_noprice_nopeaks_def row_cp50_def row_2018_def Let_def
  two_of_cluster

lemma attempts_nanprice_nopeaks:
  "attempts demo_builtins [] 2026 [price, peak_24h, peak_alltime] []
     (start_state row_nanprice_nopeaks [price, peak_24h, peak_alltime])
   = Inr (\<lparr>out_row = row_nanprice_nopeaks(C_peak_24h := PInt 250, C_peak_alltime := PInt 875),
           deletions = 0, completed = 0,
           printed = [E_missing [price, peak_24h, peak_alltime], E_estimate, E_estimated 2]\<rparr>,
          [C_price])"
  "attempts float_price_builtins [] 2026 [price, peak_24h, peak_alltime] []
     (start_state row_nanprice_nopeaks [price, peak_24h, peak_alltime])
   = Inr (\<lparr>out_row = row_nanprice_nopeaks(C_peak_24h := PInt 250, C_peak_alltime := PInt 875),
           deletions = 0, completed = 0,
           printed = [E_missing [price, peak_24h, peak_alltime], E_estimate, E_estimated 2]\<rparr>,
          [C_price])"
  by (simp_all add: attempts_eval_defs)

text \<open>
  C2. The code breaks the claim on a file in which no record has a price. The column of
  prices is then a column of floats, for which pandas, from its version 3, refuses the
  string \<open>Free\<close>: the write of the sentinel raises inside the \<open>try\<close> block, after the
  message that announces it, and the handler drops the record. That is so in both rules:
  for the record that misses only its price, and for the record that misses its price
  and two cells of the cluster, once the cluster is estimated. The same two records are
  salvaged with the price \<open>Free\<close> where the write is accepted.
\<close>

theorem price_only_dropped:
  "missing_of float_price_builtins row_nanprice = [price]
   \<and> fetch_missing_data env_none (PInt 10) [price] = Inr []
   \<and> decision_of (process_record float_price_builtins env_none [] 2026 (PInt 10) row_nanprice)
       = Dropped
   \<and> printed (process_record float_price_builtins env_none [] 2026 (PInt 10) row_nanprice)
       = [E_missing [price], E_price_fetch_failed, E_error TypeError]
   \<and> out_row (process_record float_price_builtins env_none [] 2026 (PInt 10) row_nanprice) C_price
       = PFloat NaN
   \<and> salvaged_free (process_record demo_builtins env_none [] 2026 (PInt 10) row_nanprice)
   \<and> missing_of float_price_builtins row_nanprice_nopeaks = [price, peak_24h, peak_alltime]
   \<and> decision_of
        (process_record float_price_builtins env_none [] 2026 (PInt 10) row_nanprice_nopeaks)
       = Dropped
   \<and> printed (process_record float_price_builtins env_none [] 2026 (PInt 10) row_nanprice_nopeaks)
       = [E_missing [price, peak_24h, peak_alltime], E_estimate, E_estimated 2, E_price_only,
          E_error TypeError]
   \<and> salvaged_free
        (process_record demo_builtins env_none [] 2026 (PInt 10) row_nanprice_nopeaks)"
proof -
  have np: "\<not> price_only_unfetched [price, peak_24h, peak_alltime] []"
    by (simp add: price_only_unfetched_def)
  have a: "process_record float_price_builtins env_none [] 2026 (PInt 10) row_nanprice
      = \<lparr>out_row = row_nanprice, deletions = 1, completed = 0,
         printed = [E_missing [price], E_price_fetch_failed, E_error TypeError]\<rparr>"
    unfolding process_record_def Let_def missing_row_nanprice
    by (simp add: try_body_def fetch_none price_only_unfetched_def start_state_def
          at_write_def at_set_float_price)
  have a': "salvaged_free (process_record demo_builtins env_none [] 2026 (PInt 10) row_nanprice)"
    by (rule price_only_rule_a(1) [where d = "[]"])
       (simp_all add: missing_row_nanprice fetch_none at_set_demo)
  have b: "process_record float_price_builtins env_none [] 2026 (PInt 10) row_nanprice_nopeaks
      = \<lparr>out_row = row_nanprice_nopeaks(C_peak_24h := PInt 250, C_peak_alltime := PInt 875),
         deletions = 1, completed = 0,
         printed = [E_missing [price, peak_24h, peak_alltime], E_estimate, E_estimated 2,
                    E_price_only, E_error TypeError]\<rparr>"
    unfolding process_record_def Let_def missing_row_nanprice_nopeaks
    by (simp add: try_body_def fetch_none np attempts_nanprice_nopeaks final_phase_def
          at_write_def at_set_float_price)
  have b': "salvaged_free
        (process_record demo_builtins env_none [] 2026 (PInt 10) row_nanprice_nopeaks)"
    by (rule price_only_rule_b(1) [where d = "[]"])
       (simp_all add: missing_row_nanprice_nopeaks fetch_none np attempts_nanprice_nopeaks
          at_set_demo)
  have c: "row_nanprice C_price = PFloat NaN" by (simp add: row_nanprice_def)
  show ?thesis
    using a' b' by (simp add: a b c missing_row_nanprice missing_row_nanprice_nopeaks fetch_none
          decision_of_def)
qed

lemma clean_loop_deleted:
  "deleted_idx (clean_loop B E M Y xs st) =
     deleted_idx st @ concat (map (\<lambda>(i, a, r). replicate (deletions (process_record B E M Y a r)) i) xs)"
  by (induction B E M Y xs st rule: clean_loop.induct) (simp_all add: Let_def)

lemma clean_loop_df:
  "df (clean_loop B E M Y xs st) =
     foldl (\<lambda>d (i, a, r). d[i := (a, out_row (process_record B E M Y a r))]) (df st) xs"
  by (induction B E M Y xs st rule: clean_loop.induct) (simp_all add: Let_def)

lemma foldl_update_zip:
  "k + length ys \<le> length d \<Longrightarrow>
   foldl (\<lambda>d (i, y). d[i := f y]) d (zip [k..<k + length ys] ys)
     = take k d @ map f ys @ drop (k + length ys) d"
proof (induction ys arbitrary: k d)
  case Nil
  then show ?case by simp
next
  case (Cons y ys)
  have u: "[k..<k + length (y # ys)] = k # [Suc k..<Suc k + length ys]"
    by (subst upt_rec) simp
  from Cons.prems have l: "Suc k + length ys \<le> length (d[k := f y])" and kl: "k < length d"
    by simp_all
  have t: "take (Suc k) (d[k := f y]) = take k d @ [f y]"
    using kl by (simp add: take_Suc_conv_app_nth)
  have dr: "drop (Suc k + length ys) (d[k := f y]) = drop (Suc k + length ys) d"
    by simp
  show ?case
    unfolding u using Cons.IH [OF l] t dr by simp
qed

lemma clean_state_df:
  "df (clean_state B E M Y rows) = map (\<lambda>(a, r). (a, out_row (process_record B E M Y a r))) rows"
proof -
  have "foldl (\<lambda>d (i, y). d[i := (\<lambda>(a, r). (a, out_row (process_record B E M Y a r))) y]) rows
          (zip [0..<0 + length rows] rows)
        = take 0 rows @ map (\<lambda>(a, r). (a, out_row (process_record B E M Y a r))) rows
            @ drop (0 + length rows) rows"
    by (rule foldl_update_zip) simp
  moreover have "(\<lambda>d (i, a, r). d[i := (a, out_row (process_record B E M Y a r))])
      = (\<lambda>d (i, y). d[i := (\<lambda>(a, r). (a, out_row (process_record B E M Y a r))) y])"
    by (auto simp: fun_eq_iff)
  ultimately show ?thesis
    by (simp add: clean_state_def clean_loop_df)
qed

lemma clean_state_deleted:
  "j \<in> set (deleted_idx (clean_state B E M Y rows)) \<longleftrightarrow>
     j < length rows \<and> 0 < deletions (process_record B E M Y (fst (rows ! j)) (snd (rows ! j)))"
proof -
  let ?g = "\<lambda>x. replicate (deletions (process_record B E M Y (fst (snd x)) (snd (snd x)))) (fst x)"
  have g: "(\<lambda>(i, a, r). replicate (deletions (process_record B E M Y a r)) i) = ?g"
    by (simp add: split_def)
  have "j \<in> set (concat (map ?g (zip [0..<length rows] rows))) \<longleftrightarrow>
     j < length rows \<and> 0 < deletions (process_record B E M Y (fst (rows ! j)) (snd (rows ! j)))"
    (is "?L = ?R")
  proof
    assume ?L
    then obtain x where x: "x \<in> set (zip [0..<length rows] rows)" and j: "j \<in> set (?g x)"
      by auto
    from x obtain i where i: "i < length rows" "x = (i, rows ! i)"
      by (auto simp: set_zip)
    from j i show ?R by (auto split: if_splits)
  next
    assume r: ?R
    then have "(j, rows ! j) \<in> set (zip [0..<length rows] rows)"
      by (force simp: set_zip)
    moreover from r have "j \<in> set (?g (j, rows ! j))" by simp
    ultimately show ?L by (metis (no_types, lifting) set_concat UN_I image_eqI set_map)
  qed
  then show ?thesis
    unfolding clean_state_def clean_loop_deleted g by simp
qed

lemma dropped_iff: "decision_of s = Dropped \<longleftrightarrow> 0 < deletions s"
  by (simp add: decision_of_def)

lemma drop_rows_map:
  assumes "\<forall>i < length xs. (i \<in> set idxs) = Q (xs ! i)"
  shows "drop_rows idxs (map f xs) = map f (filter (\<lambda>x. \<not> Q x) xs)"
  using assms
proof (induction xs rule: rev_induct)
  case Nil
  then show ?case by (simp add: drop_rows_def)
next
  case (snoc x xs)
  have h: "\<forall>i < length xs. (i \<in> set idxs) = Q (xs ! i)"
  proof (intro allI impI)
    fix i assume i: "i < length xs"
    with snoc.prems have "(i \<in> set idxs) = Q ((xs @ [x]) ! i)" by simp
    with i show "(i \<in> set idxs) = Q (xs ! i)" by (simp add: nth_append)
  qed
  from snoc.prems have last: "(length xs \<in> set idxs) = Q x"
    by (metis length_append_singleton lessI nth_append_length)
  have z: "zip [0..<length (map f (xs @ [x]))] (map f (xs @ [x]))
             = zip [0..<length xs] (map f xs) @ [(length xs, f x)]"
    by simp
  from snoc.IH [OF h] have ih: "map snd (filter (\<lambda>(i, x). i \<notin> set idxs)
        (zip [0..<length xs] (map f xs))) = map f (filter (\<lambda>x. \<not> Q x) xs)"
    by (simp add: drop_rows_def)
  show ?case
    unfolding drop_rows_def z using ih last by simp
qed

lemma clean_data_kept:
  assumes "rows \<noteq> []"
  shows "clean_data B E M Y rows = Inr (kept_rows B E M Y rows)"
proof -
  let ?Q = "\<lambda>(a, r). decision_of (process_record B E M Y a r) = Dropped"
  let ?f = "\<lambda>(a, r). (a, out_row (process_record B E M Y a r))"
  let ?st = "clean_state B E M Y rows"
  have q: "\<forall>i < length rows. (i \<in> set (deleted_idx ?st)) = ?Q (rows ! i)"
    by (simp add: clean_state_deleted dropped_iff split: prod.splits)
  have k: "kept_rows B E M Y rows = map ?f (filter (\<lambda>x. \<not> ?Q x) rows)"
    by (simp add: kept_rows_def split_def)
  have d: "drop_rows (deleted_idx ?st) (df ?st) = kept_rows B E M Y rows"
    unfolding clean_state_df k by (rule drop_rows_map [OF q])
  show ?thesis
  proof (cases "deleted_idx ?st = []")
    case False
    with assms show ?thesis by (simp add: clean_data_def Let_def d)
  next
    case True
    with q have "\<forall>i < length rows. \<not> ?Q (rows ! i)" by simp
    then have "\<forall>x \<in> set rows. \<not> ?Q x" by (metis in_set_conv_nth)
    then have "filter (\<lambda>x. \<not> ?Q x) rows = rows" by (simp add: filter_id_conv)
    with True assms show ?thesis by (simp add: clean_data_def Let_def k clean_state_df)
  qed
qed

text \<open>
  C6. When the \<open>try\<close> block of a record of the batch raises (in external completion, in
  estimation or in the update of the record), the record is dropped: its index is in the
  list of deletions. The loop goes on: the index of every record of the batch is in the
  list of deletions exactly when that record, taken on its own, is dropped, every row of
  the frame is the row its own processing left, and \<open>clean_data\<close> returns the rows
  kept.
\<close>

theorem record_errors_isolated:
  assumes "i < length rows" "rows ! i = (app_id, r)" "missing_of B r \<noteq> []"
      and "try_body B E M Y app_id (missing_of B r) (start_state r (missing_of B r)) = Inl (e, s)"
  shows "decision_of (process_record B E M Y app_id r) = Dropped
     \<and> i \<in> set (deleted_idx (clean_state B E M Y rows))
     \<and> (\<forall>j < length rows. (j \<in> set (deleted_idx (clean_state B E M Y rows)))
            = (decision_of (process_record B E M Y (fst (rows ! j)) (snd (rows ! j))) = Dropped))
     \<and> df (clean_state B E M Y rows)
         = map (\<lambda>(a, r). (a, out_row (process_record B E M Y a r))) rows
     \<and> clean_data B E M Y rows = Inr (kept_rows B E M Y rows)"
proof -
  from assms(1) have ne: "rows \<noteq> []" by auto
  have d: "decision_of (process_record B E M Y app_id r) = Dropped"
    using assms(3,4) by (simp add: process_record_def Let_def decision_of_def)
  have i: "i \<in> set (deleted_idx (clean_state B E M Y rows))"
    using d assms(1,2) by (simp add: clean_state_deleted dropped_iff)
  show ?thesis
    using d i by (simp add: clean_state_deleted dropped_iff clean_state_df clean_data_kept [OF ne])
qed


lemma try_body_bad:
  "try_body demo_builtins env_bad [] 2026 (PInt 2) [current_players, peak_24h, peak_alltime]
     (start_state row_2018 [current_players, peak_24h, peak_alltime])
   = Inl (TypeError, start_state row_2018 [current_players, peak_24h, peak_alltime])"
  by (simp add: try_body_def fetch_missing_data_def after_spy_def after_store_def spy_part_def
        spy_field_def pos_check_def get0_def truthy_def env_bad_def spy_bad_def)

lemma fetch_bad_price: "fetch_missing_data env_bad a [price] = Inr []"
  by (simp add: fetch_missing_data_def after_spy_def after_store_def store_part_def env_bad_def)

lemma missing_row_full: "missing_of demo_builtins row_full = []"
  by (simp add: missing_eval_defs row_full_def row_cp50_def row_2018_def)

theorem record_errors_isolated_witness:
  "1 < length rows_demo
   \<and> rows_demo ! 1 = (PInt 2, row_2018)
   \<and> missing_of demo_builtins row_2018 = [current_players, peak_24h, peak_alltime]
   \<and> try_body demo_builtins env_bad [] 2026 (PInt 2) (missing_of demo_builtins row_2018)
         (start_state row_2018 (missing_of demo_builtins row_2018))
       = Inl (TypeError, start_state row_2018 [current_players, peak_24h, peak_alltime])
   \<and> decision_of (process_record demo_builtins env_bad [] 2026 (PInt 2) row_2018) = Dropped
   \<and> 1 \<in> set (deleted_idx (clean_state demo_builtins env_bad [] 2026 rows_demo))
   \<and> map_sum id (map fst) (clean_data demo_builtins env_bad [] 2026 rows_demo)
       = Inr [PInt 1, PInt 3]"
proof -
  have l: "1 < length rows_demo" and n: "rows_demo ! 1 = (PInt 2, row_2018)"
    by (simp_all add: rows_demo_def)
  note m = missing_row_2018
  have ne: "missing_of demo_builtins row_2018 \<noteq> []" by (simp add: m)
  have t: "try_body demo_builtins env_bad [] 2026 (PInt 2) (missing_of demo_builtins row_2018)
         (start_state row_2018 (missing_of demo_builtins row_2018))
       = Inl (TypeError, start_state row_2018 [current_players, peak_24h, peak_alltime])"
    unfolding m by (rule try_body_bad)
  note th = record_errors_isolated [OF l n ne t]
  from th have d2: "decision_of (process_record demo_builtins env_bad [] 2026 (PInt 2) row_2018)
      = Dropped" by (rule conjunct1)
  from th have i: "1 \<in> set (deleted_idx (clean_state demo_builtins env_bad [] 2026 rows_demo))"
    by (elim conjE)
  from th have c: "clean_data demo_builtins env_bad [] 2026 rows_demo
      = Inr (kept_rows demo_builtins env_bad [] 2026 rows_demo)" by (elim conjE)
  have d1: "decision_of (process_record demo_builtins env_bad [] 2026 (PInt 1) row_full) = Intact"
    by (simp add: process_record_def missing_row_full decision_of_def)
  have d3: "decision_of (process_record demo_builtins env_bad [] 2026 (PInt 3) row_noprice)
      = Salvaged"
    by (simp add: process_record_def missing_row_noprice try_body_def fetch_bad_price
          price_only_unfetched_def start_state_def at_write_def at_set_demo decision_of_def)
  have k: "map_sum id (map fst) (clean_data demo_builtins env_bad [] 2026 rows_demo)
      = Inr [PInt 1, PInt 3]"
    unfolding c by (simp add: kept_rows_def rows_demo_def d1 d2 d3)
  from l n m t d2 i k show ?thesis by (intro conjI)
qed

end
